theory Spec2Isabelle
  imports Main "HOL-Library.List_Lexorder"
begin

section \<open>Strings, code points and bytes\<close>

text \<open>
  A JavaScript string is a sequence of UTF-16 code units; a \<open>Uint8Array\<close> is a sequence of
  bytes. Both are lists of natural numbers here (code units below \<open>0x10000\<close>, bytes below
  \<open>0x100\<close>). A code point handed to a state of the parser is \<open>number | undefined\<close>:
  a \<open>nat option\<close>. An uncaught \<open>TypeError\<close> (a property read on \<open>undefined\<close> or
  \<open>null\<close>) is the left injection of a sum.
\<close>

type_synonym jsstring = "nat list"
type_synonym bytes = "nat list"

datatype jserror = TypeError

definition str :: "string \<Rightarrow> jsstring" where
  "str s = map of_char s"

definition isLeadSurrogate :: "nat \<Rightarrow> bool" where
  "isLeadSurrogate u = (0xD800 \<le> u \<and> u \<le> 0xDBFF)"

definition isTrailSurrogate :: "nat \<Rightarrow> bool" where
  "isTrailSurrogate u = (0xDC00 \<le> u \<and> u \<le> 0xDFFF)"

definition surrogatePair :: "nat \<Rightarrow> nat \<Rightarrow> nat" where
  "surrogatePair h l = 0x10000 + (h - 0xD800) * 0x400 + (l - 0xDC00)"

text \<open>\<open>Array.from(s, c => c.codePointAt(0))\<close> and \<open>[...s]\<close>: the string iterator pairs a lead
  surrogate with the trail surrogate after it and yields every other code unit alone.\<close>

fun codePoints :: "jsstring \<Rightarrow> nat list" where
  "codePoints (h # l # rest) =
     (if isLeadSurrogate h \<and> isTrailSurrogate l then surrogatePair h l # codePoints rest
      else h # codePoints (l # rest))"
| "codePoints [h] = [h]"
| "codePoints [] = []"

text \<open>\<open>s.codePointAt(i)\<close>: indexed by code unit; \<open>undefined\<close> past the end.\<close>

definition codePointAt :: "jsstring \<Rightarrow> nat \<Rightarrow> nat option" where
  "codePointAt s i =
     (if i < length s then
        (if isLeadSurrogate (s ! i) \<and> i + 1 < length s \<and> isTrailSurrogate (s ! (i + 1))
         then Some (surrogatePair (s ! i) (s ! (i + 1)))
         else Some (s ! i))
      else None)"

text \<open>\<open>String.fromCodePoint(c)\<close>, for a code point up to \<open>0x10FFFF\<close>.\<close>

definition fromCodePoint :: "nat \<Rightarrow> jsstring" where
  "fromCodePoint c =
     (if c < 0x10000 then [c]
      else [0xD800 + (c - 0x10000) div 0x400, 0xDC00 + (c - 0x10000) mod 0x400])"

text \<open>\<open>input[pointer]\<close> on an array: \<open>undefined\<close> outside \<open>0 .. length - 1\<close>.\<close>

definition at :: "nat list \<Rightarrow> int \<Rightarrow> nat option" where
  "at xs i = (if 0 \<le> i \<and> i < int (length xs) then Some (xs ! nat i) else None)"

text \<open>\<open>cStr.toLowerCase()\<close> and \<open>hex.toUpperCase()\<close> where the source applies them to ASCII
  letters and digits only (a scheme character, the hexadecimal digits of a byte).\<close>

definition asciiLower :: "nat \<Rightarrow> nat" where
  "asciiLower c = (if 0x41 \<le> c \<and> c \<le> 0x5A then c + 0x20 else c)"

definition asciiUpper :: "nat \<Rightarrow> nat" where
  "asciiUpper c = (if 0x61 \<le> c \<and> c \<le> 0x7A then c - 0x20 else c)"

text \<open>\<open>n.toString(radix)\<close> for a non-negative integer: lowercase digits, no leading zero.\<close>

definition digitChar :: "nat \<Rightarrow> nat" where
  "digitChar d = (if d < 10 then 0x30 + d else 0x57 + d)"

function toStringRadix :: "nat \<Rightarrow> nat \<Rightarrow> jsstring" where
  "toStringRadix r n =
     (if n < r \<or> r < 2 then [digitChar n]
      else toStringRadix r (n div r) @ [digitChar (n mod r)])"
  by pat_completeness auto
termination
  by (relation "measure (\<lambda>(r, n). n)") auto

declare toStringRadix.simps [simp del]

subsection \<open>UTF-8\<close>

text \<open>\<open>TextEncoder.encode\<close>: the string is read by code point, a lone surrogate becomes
  U+FFFD, and every scalar value is written as one to four bytes.\<close>

definition toScalar :: "nat \<Rightarrow> nat" where
  "toScalar c = (if 0xD800 \<le> c \<and> c \<le> 0xDFFF then 0xFFFD else c)"

definition utf8Bytes :: "nat \<Rightarrow> bytes" where
  "utf8Bytes c =
     (if c < 0x80 then [c]
      else if c < 0x800 then [0xC0 + c div 0x40, 0x80 + c mod 0x40]
      else if c < 0x10000 then
        [0xE0 + c div 0x1000, 0x80 + (c div 0x40) mod 0x40, 0x80 + c mod 0x40]
      else
        [0xF0 + c div 0x40000, 0x80 + (c div 0x1000) mod 0x40,
         0x80 + (c div 0x40) mod 0x40, 0x80 + c mod 0x40])"

definition utf8Encode :: "jsstring \<Rightarrow> bytes" where
  "utf8Encode s = concat (map (\<lambda>c. utf8Bytes (toScalar c)) (codePoints s))"

text \<open>\<open>new TextDecoder('utf-8', { ignoreBOM: true }).decode\<close>: the UTF-8 decoder of the
  Encoding Standard in replacement mode. The arguments after the bytes are the decoder's
  code point, bytes seen, bytes needed, lower boundary and upper boundary. A byte outside
  the boundaries ends the sequence with U+FFFD and is read again from the initial state.\<close>

function utf8DecodeLoop :: "bytes \<Rightarrow> nat \<Rightarrow> nat \<Rightarrow> nat \<Rightarrow> nat \<Rightarrow> nat \<Rightarrow> nat list" where
  "utf8DecodeLoop [] cp seen needed lower upper = (if needed \<noteq> 0 then [0xFFFD] else [])"
| "utf8DecodeLoop (b # bs) cp seen needed lower upper =
     (if needed = 0 then
        (if b \<le> 0x7F then b # utf8DecodeLoop bs 0 0 0 0x80 0xBF
         else if 0xC2 \<le> b \<and> b \<le> 0xDF then utf8DecodeLoop bs (b - 0xC0) 0 1 0x80 0xBF
         else if 0xE0 \<le> b \<and> b \<le> 0xEF then
           utf8DecodeLoop bs (b - 0xE0) 0 2
             (if b = 0xE0 then 0xA0 else 0x80) (if b = 0xED then 0x9F else 0xBF)
         else if 0xF0 \<le> b \<and> b \<le> 0xF4 then
           utf8DecodeLoop bs (b - 0xF0) 0 3
             (if b = 0xF0 then 0x90 else 0x80) (if b = 0xF4 then 0x8F else 0xBF)
         else 0xFFFD # utf8DecodeLoop bs 0 0 0 0x80 0xBF)
      else if b < lower \<or> upper < b then 0xFFFD # utf8DecodeLoop (b # bs) 0 0 0 0x80 0xBF
      else if seen + 1 \<noteq> needed then
        utf8DecodeLoop bs (cp * 0x40 + (b - 0x80)) (seen + 1) needed 0x80 0xBF
      else (cp * 0x40 + (b - 0x80)) # utf8DecodeLoop bs 0 0 0 0x80 0xBF)"
  by pat_completeness auto
termination
  by (relation "measure (\<lambda>(bs, cp, seen, needed, lower, upper).
        2 * length bs + (if needed = 0 then 0 else 1))") auto

declare utf8DecodeLoop.simps [simp del]

definition utf8Decode :: "bytes \<Rightarrow> jsstring" where
  "utf8Decode bs = concat (map fromCodePoint (utf8DecodeLoop bs 0 0 0 0x80 0xBF))"

subsection \<open>Percent-encoding\<close>

definition percentEncode :: "nat \<Rightarrow> jsstring" where
  "percentEncode c =
     (let hex = map asciiUpper (toStringRadix 16 c)
      in if length hex = 1 then 0x25 # 0x30 # hex else 0x25 # hex)"

definition decodeHexDigit :: "nat \<Rightarrow> int" where
  "decodeHexDigit c =
     (if c \<ge> 0x30 \<and> c \<le> 0x39 then int c - 0x30
      else if c \<ge> 0x41 \<and> c \<le> 0x46 then int c - 0x41 + 10
      else if c \<ge> 0x61 \<and> c \<le> 0x66 then int c - 0x61 + 10
      else -1)"

text \<open>\<open>decodeHexDigit(input[i])\<close> where the read may be past the end: every comparison with
  \<open>undefined\<close> is false, so the result is \<open>-1\<close>.\<close>

definition decodeHexDigitAt :: "nat option \<Rightarrow> int" where
  "decodeHexDigitAt c = (case c of None \<Rightarrow> -1 | Some d \<Rightarrow> decodeHexDigit d)"

text \<open>\<open>percentDecodeBytes\<close>: the loop over \<open>i\<close>, written on the rest of the input from \<open>i\<close>;
  \<open>input[i + 1]\<close> and \<open>input[i + 2]\<close> may be past the end.\<close>

fun percentDecodeBytes :: "bytes \<Rightarrow> bytes" where
  "percentDecodeBytes [] = []"
| "percentDecodeBytes (b # rest) =
     (if b \<noteq> 0x25 then b # percentDecodeBytes rest
      else
        (let hi = decodeHexDigitAt (at rest 0); lo = decodeHexDigitAt (at rest 1)
         in if hi \<ge> 0 \<and> lo \<ge> 0 then nat (hi * 16 + lo) # percentDecodeBytes (drop 2 rest)
            else b # percentDecodeBytes rest))"

definition percentDecodeString :: "jsstring \<Rightarrow> bytes" where
  "percentDecodeString s = percentDecodeBytes (utf8Encode s)"

definition isC0ControlPercentEncode :: "nat \<Rightarrow> bool" where
  "isC0ControlPercentEncode c = (c \<le> 0x1f \<or> c > 0x7e)"

definition isFragmentPercentEncode :: "nat \<Rightarrow> bool" where
  "isFragmentPercentEncode c =
     (if c \<in> {32, 34, 60, 62, 96} then True else isC0ControlPercentEncode c)"

definition isQueryPercentEncode :: "nat \<Rightarrow> bool" where
  "isQueryPercentEncode c =
     (if c \<in> {32, 34, 35, 60, 62} then True else isC0ControlPercentEncode c)"

definition isSpecialQueryPercentEncode :: "nat \<Rightarrow> bool" where
  "isSpecialQueryPercentEncode c = (isQueryPercentEncode c \<or> c = 39)"

definition isPathPercentEncode :: "nat \<Rightarrow> bool" where
  "isPathPercentEncode c =
     (if c \<in> {63, 94, 96, 123, 125} then True else isQueryPercentEncode c)"

definition isUserinfoPercentEncode :: "nat \<Rightarrow> bool" where
  "isUserinfoPercentEncode c =
     (if c \<in> {47, 58, 59, 61, 64, 91, 92, 93, 124} then True else isPathPercentEncode c)"

definition isComponentPercentEncode :: "nat \<Rightarrow> bool" where
  "isComponentPercentEncode c =
     (if c \<in> {36, 37, 38, 43, 44} then True else isUserinfoPercentEncode c)"

definition isURLEncodedPercentEncode :: "nat \<Rightarrow> bool" where
  "isURLEncodedPercentEncode c =
     (if c \<in> {33, 39, 40, 41, 126} then True else isComponentPercentEncode c)"

definition percentEncodeByte :: "(nat \<Rightarrow> bool) \<Rightarrow> nat \<Rightarrow> jsstring" where
  "percentEncodeByte percentEncodePredicate b =
     (if percentEncodePredicate b then percentEncode b else [b])"

text \<open>\<open>utf8PercentEncodeCodePoint(codePoint, predicate)\<close>: \<open>codePoint || 0\<close> turns
  \<open>undefined\<close> into 0.\<close>

definition utf8PercentEncodeCodePoint :: "nat option \<Rightarrow> (nat \<Rightarrow> bool) \<Rightarrow> jsstring" where
  "utf8PercentEncodeCodePoint codePoint percentEncodePredicate =
     concat (map (percentEncodeByte percentEncodePredicate)
       (utf8Encode (fromCodePoint (case codePoint of None \<Rightarrow> 0 | Some c \<Rightarrow> c))))"

definition utf8PercentEncodeString :: "jsstring \<Rightarrow> (nat \<Rightarrow> bool) \<Rightarrow> bool \<Rightarrow> jsstring" where
  "utf8PercentEncodeString s percentEncodePredicate spaceAsPlus =
     concat (map (\<lambda>b. if spaceAsPlus \<and> b = 32 then [0x2B]
                       else percentEncodeByte percentEncodePredicate b) (utf8Encode s))"

section \<open>IPv4 addresses (ip.ts)\<close>

text \<open>The digit loop of \<open>parseIPv4Number\<close>. The accumulator is a JavaScript number; it is
  an unbounded integer here. The two agree below \<open>2 ^ 53\<close>, and the callers compare the
  result with 255 or with \<open>256 ** (5 - len)\<close> only, which rounding does not change.\<close>

fun parseIPv4Digits :: "jsstring \<Rightarrow> int \<Rightarrow> int \<Rightarrow> int" where
  "parseIPv4Digits [] radix v = v"
| "parseIPv4Digits (c # cs) radix v =
     (let digit = decodeHexDigit c
      in if digit \<ge> radix \<or> digit < 0 then -1 else parseIPv4Digits cs radix (v * radix + digit))"

definition parseIPv4Number :: "jsstring \<Rightarrow> int" where
  "parseIPv4Number input =
     (if length input \<ge> 2 \<and> input ! 0 = 0x30 \<and> (input ! 1 = 0x78 \<or> input ! 1 = 0x58)
      then parseIPv4Digits (drop 2 input) 16 0
      else if length input \<ge> 2 \<and> input ! 0 = 0x30 then parseIPv4Digits (drop 1 input) 8 0
      else if input = [] then -1
      else parseIPv4Digits input 10 0)"

text \<open>\<open>s.split(sep)\<close> for a one-character separator: never the empty list.\<close>

fun splitOn :: "nat \<Rightarrow> nat list \<Rightarrow> nat list list" where
  "splitOn sep [] = [[]]"
| "splitOn sep (c # cs) =
     (if c = sep then [] # splitOn sep cs
      else (case splitOn sep cs of [] \<Rightarrow> [[c]] | p # ps \<Rightarrow> (c # p) # ps))"

text \<open>The \<open>for\<close> loop of \<open>parseIPv4\<close> over the parts before the last; \<open>None\<close> is the
  early \<open>return null\<close>.\<close>

function parseIPv4Parts :: "jsstring list \<Rightarrow> nat \<Rightarrow> nat \<Rightarrow> int \<Rightarrow> int option" where
  "parseIPv4Parts parts len i ipv4 =
     (if int i < int len - 1 then
        (let n = parseIPv4Number (parts ! i)
         in if n < 0 \<or> n > 255 then None
            else parseIPv4Parts parts len (i + 1) (ipv4 + n * 2 ^ (8 * (3 - i))))
      else Some ipv4)"
  by pat_completeness auto
termination
  by (relation "measure (\<lambda>(parts, len, i, ipv4). len - i)") auto

declare parseIPv4Parts.simps [simp del]

text \<open>\<open>parseIPv4\<close>: \<open>number | null\<close>. On the empty string \<open>len\<close> becomes 0 and
  \<open>parts[-1]\<close> is \<open>undefined\<close>, whose \<open>length\<close> \<open>parseIPv4Number\<close> reads: a TypeError.\<close>

definition parseIPv4 :: "jsstring \<Rightarrow> jserror + int option" where
  "parseIPv4 input =
     (let parts = splitOn 0x2E input;
          len0 = length parts;
          len = (if parts ! (len0 - 1) = [] then len0 - 1 else len0)
      in if len > 4 then Inr None
         else (case parseIPv4Parts parts len 0 0 of
                 None \<Rightarrow> Inr None
               | Some ipv4 \<Rightarrow>
                   if len = 0 then Inl TypeError
                   else (let tail = parseIPv4Number (parts ! (len - 1))
                         in if tail < 0 \<or> tail \<ge> 256 ^ (5 - len) then Inr None
                            else Inr (Some (ipv4 + tail)))))"

text \<open>\<open>serializeIPv4\<close>: \<open>addr >>> k\<close> reads \<open>addr\<close> as an unsigned 32-bit integer.\<close>

definition serializeIPv4 :: "int \<Rightarrow> jsstring" where
  "serializeIPv4 addr =
     (let a = nat (addr mod 2 ^ 32)
      in toStringRadix 10 ((a div 2 ^ 24) mod 256) @ [0x2E] @
         toStringRadix 10 ((a div 2 ^ 16) mod 256) @ [0x2E] @
         toStringRadix 10 ((a div 2 ^ 8) mod 256) @ [0x2E] @
         toStringRadix 10 (a mod 256))"

text \<open>\<open>s.lastIndexOf(c, fromIndex)\<close>: the last index \<open>k \<le> max fromIndex 0\<close> with
  \<open>s[k] = c\<close>, or \<open>-1\<close>.\<close>

definition lastIndexOf :: "jsstring \<Rightarrow> nat \<Rightarrow> int \<Rightarrow> int" where
  "lastIndexOf s c fromIndex =
     (case filter (\<lambda>k. s ! k = c) (rev [0 ..< min (length s) (nat (max fromIndex 0) + 1)]) of
        [] \<Rightarrow> -1
      | k # _ \<Rightarrow> int k)"

text \<open>\<open>s.slice(a, b)\<close> for \<open>0 \<le> a\<close> and \<open>0 \<le> b\<close>.\<close>

definition slice :: "'a list \<Rightarrow> nat \<Rightarrow> nat \<Rightarrow> 'a list" where
  "slice s a b = take (b - a) (drop a s)"

definition isIPv4 :: "jsstring \<Rightarrow> bool" where
  "isIPv4 input =
     (let endIdx0 = int (length input);
          startIdx = lastIndexOf input 0x2E (endIdx0 - 2) + 1;
          endIdx = (if at input (endIdx0 - 1) = Some 0x2E then endIdx0 - 1 else endIdx0)
      in endIdx > startIdx \<and> parseIPv4Number (slice input (nat startIdx) (nat endIdx)) \<ge> 0)"

section \<open>application/x-www-form-urlencoded (encoding.ts)\<close>

text \<open>\<open>bytes.indexOf(b, fromIndex)\<close>; \<open>None\<close> is the result \<open>-1\<close>.\<close>

definition indexOfFrom :: "nat list \<Rightarrow> nat \<Rightarrow> nat \<Rightarrow> nat option" where
  "indexOfFrom xs b fromIdx = find (\<lambda>k. xs ! k = b) [fromIdx ..< length xs]"

lemma indexOfFrom_Some:
  "indexOfFrom xs b i = Some k \<longleftrightarrow>
     (i \<le> k \<and> k < length xs \<and> xs ! k = b \<and> (\<forall>j. i \<le> j \<and> j < k \<longrightarrow> xs ! j \<noteq> b))"
proof
  assume "indexOfFrom xs b i = Some k"
  then obtain n where n: "n < length xs - i" "xs ! (i + n) = b" "k = i + n"
    and m: "\<forall>j<n. xs ! (i + j) \<noteq> b"
    unfolding indexOfFrom_def find_Some_iff by auto
  have "xs ! j \<noteq> b" if "i \<le> j" "j < k" for j
    using m[rule_format, of "j - i"] that n(3) by simp
  with n show "i \<le> k \<and> k < length xs \<and> xs ! k = b \<and> (\<forall>j. i \<le> j \<and> j < k \<longrightarrow> xs ! j \<noteq> b)"
    by auto
next
  assume a: "i \<le> k \<and> k < length xs \<and> xs ! k = b \<and> (\<forall>j. i \<le> j \<and> j < k \<longrightarrow> xs ! j \<noteq> b)"
  show "indexOfFrom xs b i = Some k"
    unfolding indexOfFrom_def find_Some_iff
    by (rule exI[of _ "k - i"]) (use a in auto)
qed

lemma indexOfFrom_None:
  "indexOfFrom xs b i = None \<longleftrightarrow> (\<forall>j. i \<le> j \<and> j < length xs \<longrightarrow> xs ! j \<noteq> b)"
  unfolding indexOfFrom_def find_None_iff by auto

lemma count_plus_update:
  "i < length bs \<Longrightarrow> bs ! i = (43::nat) \<Longrightarrow>
   length (filter (\<lambda>b. b = 43) (bs[i := 32])) < length (filter (\<lambda>b. b = 43) bs)"
proof (induction bs arbitrary: i)
  case Nil
  then show ?case by simp
next
  case (Cons a bs)
  show ?case
  proof (cases i)
    case 0
    with Cons.prems show ?thesis by simp
  next
    case (Suc n)
    with Cons.prems have "n < length bs" "bs ! n = 43" by simp_all
    from Cons.IH[OF this] Suc show ?thesis by simp
  qed
qed

text \<open>\<open>replacePlusByteWithSpace\<close>: the loop searches from index 0 every time (\<open>fromIdx\<close>
  is never advanced) and overwrites the first \<open>+\<close> it finds, until none is left.\<close>

function replacePlusByteWithSpace :: "bytes \<Rightarrow> bytes" where
  "replacePlusByteWithSpace bs =
     (case indexOfFrom bs 43 0 of
        None \<Rightarrow> bs
      | Some idx \<Rightarrow> replacePlusByteWithSpace (bs[idx := 32]))"
  by pat_completeness auto
termination
  by (relation "measure (\<lambda>bs. length (filter (\<lambda>b. b = 43) bs))")
     (auto simp: indexOfFrom_Some intro: count_plus_update)

declare replacePlusByteWithSpace.simps [simp del]

text \<open>One pair of \<open>parseUrlencoded\<close>, from a non-empty slice between two \<open>&\<close>.\<close>

definition parseUrlencodedEntry :: "bytes \<Rightarrow> jsstring \<times> jsstring" where
  "parseUrlencodedEntry slice0 =
     (let equalIdx = (case indexOfFrom slice0 61 0 of None \<Rightarrow> length slice0 | Some k \<Rightarrow> k);
          name = replacePlusByteWithSpace (slice slice0 0 equalIdx);
          val = replacePlusByteWithSpace (drop (equalIdx + 1) slice0)
      in (utf8Decode (percentDecodeBytes name), utf8Decode (percentDecodeBytes val)))"

text \<open>The \<open>while (idx < input.byteLength)\<close> loop of \<open>parseUrlencoded\<close>, on its variables
  \<open>lastIdx\<close>, \<open>idx\<close> and \<open>entries\<close>.\<close>

function parseUrlencodedLoop ::
  "bytes \<Rightarrow> nat \<Rightarrow> nat \<Rightarrow> (jsstring \<times> jsstring) list \<Rightarrow> (jsstring \<times> jsstring) list" where
  "parseUrlencodedLoop input lastIdx idx entries =
     (if idx < length input then
        (let idx' = (case indexOfFrom input 38 lastIdx of None \<Rightarrow> length input | Some k \<Rightarrow> k);
             slice0 = slice input lastIdx idx'
         in if slice0 = [] then parseUrlencodedLoop input (idx' + 1) idx' entries
            else parseUrlencodedLoop input (idx' + 1) idx' (entries @ [parseUrlencodedEntry slice0]))
      else entries)"
  by pat_completeness auto
termination
  by (relation "measure (\<lambda>(input, lastIdx, idx, entries).
        if idx < length input then 1 + (length input + 1 - lastIdx) else 0)")
     (auto simp: indexOfFrom_Some split: option.splits)

declare parseUrlencodedLoop.simps [simp del]

definition parseUrlencoded :: "bytes \<Rightarrow> (jsstring \<times> jsstring) list" where
  "parseUrlencoded input = parseUrlencodedLoop input 0 0 []"

text \<open>\<open>serializeUrlencoded\<close>: the loop over \<open>idx\<close>, with the output so far.\<close>

fun serializeUrlencodedLoop :: "(jsstring \<times> jsstring) list \<Rightarrow> bool \<Rightarrow> jsstring \<Rightarrow> jsstring" where
  "serializeUrlencodedLoop [] first output = output"
| "serializeUrlencodedLoop ((n, v) # entries) first output =
     (let name = utf8PercentEncodeString n isURLEncodedPercentEncode True;
          val = utf8PercentEncodeString v isURLEncodedPercentEncode True
      in serializeUrlencodedLoop entries False
           (output @ (if \<not> first then [0x26] @ name @ [0x3D] @ val else name @ [0x3D] @ val)))"

definition serializeUrlencoded :: "(jsstring \<times> jsstring) list \<Rightarrow> jsstring" where
  "serializeUrlencoded entries = serializeUrlencodedLoop entries True []"

section \<open>The URL record (url-state-machine.ts)\<close>

text \<open>\<open>interface URLAbstract\<close>. A host is stored serialized (\<open>serializeHost\<close>), \<open>null\<close> is
  \<open>None\<close>.\<close>

record URLAbstract =
  scheme :: jsstring
  username :: jsstring
  password :: jsstring
  host :: "jsstring option"
  port :: "nat option"
  path :: "jsstring list"
  query :: "jsstring option"
  fragment :: "jsstring option"
  opaquePath :: bool

section \<open>URLSearchParams (URLSearchParamsImpl.ts)\<close>

text \<open>\<open>interface URLSearchParamsInternals\<close>. The \<open>url\<close> field points to the owning \<open>URL\<close>
  object or is \<open>null\<close>; the only part of that object the methods below touch is its
  record, which is what the field holds here.\<close>

record URLSearchParamsInternals =
  sp_list :: "(jsstring \<times> jsstring) list"
  sp_url :: "URLAbstract option"

text \<open>\<open>updateURLQuery\<close> (URLImpl.ts) and \<open>updateInternalURL\<close>; \<open>query || null\<close> turns the
  empty string into \<open>null\<close>.\<close>

definition updateURLQuery :: "URLAbstract \<Rightarrow> jsstring option \<Rightarrow> URLAbstract" where
  "updateURLQuery u q = u\<lparr>query := q\<rparr>"

definition updateInternalURL :: "URLSearchParamsInternals \<Rightarrow> URLSearchParamsInternals" where
  "updateInternalURL internals =
     (case sp_url internals of
        None \<Rightarrow> internals
      | Some u \<Rightarrow>
          (let q = serializeUrlencoded (sp_list internals)
           in internals\<lparr>sp_url := Some (updateURLQuery u (if q = [] then None else Some q))\<rparr>))"

text \<open>\<open>list.splice(idx, 1)\<close>.\<close>

definition splice1 :: "'a list \<Rightarrow> nat \<Rightarrow> 'a list" where
  "splice1 xs idx = take idx xs @ drop (idx + 1) xs"

definition URLSearchParams_append ::
  "jsstring \<Rightarrow> jsstring \<Rightarrow> URLSearchParamsInternals \<Rightarrow> URLSearchParamsInternals" where
  "URLSearchParams_append name val internals =
     updateInternalURL (internals\<lparr>sp_list := sp_list internals @ [(name, val)]\<rparr>)"

text \<open>The \<open>while\<close> loop of \<open>delete\<close>; the optional second argument is \<open>None\<close> when it is
  \<open>undefined\<close> or \<open>null\<close>.\<close>

function deleteLoop ::
  "jsstring \<Rightarrow> jsstring option \<Rightarrow> (jsstring \<times> jsstring) list \<Rightarrow> nat \<Rightarrow> (jsstring \<times> jsstring) list" where
  "deleteLoop name val xs idx =
     (if idx < length xs then
        (if fst (xs ! idx) = name \<and> (val = None \<or> Some (snd (xs ! idx)) = val)
         then deleteLoop name val (splice1 xs idx) idx
         else deleteLoop name val xs (idx + 1))
      else xs)"
  by pat_completeness auto
termination
  by (relation "measure (\<lambda>(name, val, xs, idx). length xs - idx)") (auto simp: splice1_def)

declare deleteLoop.simps [simp del]

definition URLSearchParams_delete ::
  "jsstring \<Rightarrow> jsstring option \<Rightarrow> URLSearchParamsInternals \<Rightarrow> URLSearchParamsInternals" where
  "URLSearchParams_delete name val internals =
     updateInternalURL (internals\<lparr>sp_list := deleteLoop name val (sp_list internals) 0\<rparr>)"

text \<open>The \<open>while\<close> loop of \<open>set\<close>, on the list, \<open>hasEntry\<close> and \<open>idx\<close>.\<close>

function setLoop ::
  "jsstring \<Rightarrow> jsstring \<Rightarrow> (jsstring \<times> jsstring) list \<Rightarrow> bool \<Rightarrow> nat
     \<Rightarrow> (jsstring \<times> jsstring) list \<times> bool" where
  "setLoop name val xs hasEntry idx =
     (if idx < length xs then
        (if fst (xs ! idx) = name then
           (if hasEntry then setLoop name val (splice1 xs idx) hasEntry idx
            else setLoop name val (xs[idx := (fst (xs ! idx), val)]) True (idx + 1))
         else setLoop name val xs hasEntry (idx + 1))
      else (xs, hasEntry))"
  by pat_completeness auto
termination
  by (relation "measure (\<lambda>(name, val, xs, hasEntry, idx). length xs - idx)")
     (auto simp: splice1_def)

declare setLoop.simps [simp del]

definition URLSearchParams_set ::
  "jsstring \<Rightarrow> jsstring \<Rightarrow> URLSearchParamsInternals \<Rightarrow> URLSearchParamsInternals" where
  "URLSearchParams_set name val internals =
     (let (xs, hasEntry) = setLoop name val (sp_list internals) False 0
      in updateInternalURL
           (internals\<lparr>sp_list := (if \<not> hasEntry then xs @ [(name, val)] else xs)\<rparr>))"

text \<open>\<open>sort\<close>: \<open>Array.prototype.sort\<close> is stable, and the comparator orders the names as
  JavaScript orders strings, by code units; that is the lexicographic order of the lists.\<close>

definition URLSearchParams_sort :: "URLSearchParamsInternals \<Rightarrow> URLSearchParamsInternals" where
  "URLSearchParams_sort internals =
     updateInternalURL (internals\<lparr>sp_list := sort_key fst (sp_list internals)\<rparr>)"

section \<open>The urlencoded parser and the search parameters: specifications and proofs\<close>

text \<open>The parser as the specification words it: the chunks between \<open>&\<close>, the empty ones
  dropped, each split at its first \<open>=\<close>, every \<open>+\<close> of both halves turned into a space,
  then percent-decoded and UTF-8-decoded.\<close>

definition plusToSpace :: "bytes \<Rightarrow> bytes" where
  "plusToSpace bs = map (\<lambda>b. if b = 43 then 32 else b) bs"

definition splitAtFirst :: "nat \<Rightarrow> bytes \<Rightarrow> bytes \<times> bytes" where
  "splitAtFirst sep chunk = (takeWhile (\<lambda>b. b \<noteq> sep) chunk, drop 1 (dropWhile (\<lambda>b. b \<noteq> sep) chunk))"

text \<open>Percent-decoding as the URL Standard words it: a \<open>%\<close> followed by two hexadecimal
  digits, of either case, is the byte the two digits spell; every other byte, also a \<open>%\<close>
  that no two hexadecimal digits follow, stands for itself.\<close>

definition hexDigitValue :: "nat \<Rightarrow> nat option" where
  "hexDigitValue c =
     (if c \<in> set (str ''0123456789'') then Some (c - 0x30)
      else if c \<in> set (str ''abcdef'') then Some (c - 0x61 + 10)
      else if c \<in> set (str ''ABCDEF'') then Some (c - 0x41 + 10)
      else None)"

fun percentDecodeSpec :: "bytes \<Rightarrow> bytes" where
  "percentDecodeSpec (p # h # l # rest) =
     (case (hexDigitValue h, hexDigitValue l) of
        (Some hi, Some lo) \<Rightarrow>
          if p = 0x25 then (16 * hi + lo) # percentDecodeSpec rest
          else p # percentDecodeSpec (h # l # rest)
      | _ \<Rightarrow> p # percentDecodeSpec (h # l # rest))"
| "percentDecodeSpec bs = bs"

definition parseUrlencodedSpec :: "bytes \<Rightarrow> (jsstring \<times> jsstring) list" where
  "parseUrlencodedSpec input =
     map (\<lambda>chunk. case splitAtFirst 61 chunk of
            (n, v) \<Rightarrow> (utf8Decode (percentDecodeSpec (plusToSpace n)),
                       utf8Decode (percentDecodeSpec (plusToSpace v))))
       (filter (\<lambda>chunk. chunk \<noteq> []) (splitOn 38 input))"

lemma replacePlus_eq: "replacePlusByteWithSpace bs = plusToSpace bs"
proof (induction bs rule: replacePlusByteWithSpace.induct)
  case (1 bs)
  show ?case
  proof (cases "indexOfFrom bs 43 0")
    case None
    then have "\<forall>b\<in>set bs. b \<noteq> 43"
      by (auto simp: indexOfFrom_None in_set_conv_nth)
    then have "plusToSpace bs = bs"
      unfolding plusToSpace_def by (induction bs) auto
    with None show ?thesis by (subst replacePlusByteWithSpace.simps) simp
  next
    case (Some idx)
    then have k: "idx < length bs" "bs ! idx = 43"
      by (auto simp: indexOfFrom_Some)
    have "plusToSpace (bs[idx := 32]) = (plusToSpace bs)[idx := 32]"
      by (simp add: plusToSpace_def map_update)
    also have "\<dots> = plusToSpace bs"
      using k by (intro list_update_same_conv[THEN iffD2]) (simp_all add: plusToSpace_def)
    finally show ?thesis
      using "1.IH"[OF Some] Some by (subst replacePlusByteWithSpace.simps) simp
  qed
qed

lemma indexOfFrom_takeWhile:
  assumes "i \<le> length xs"
  shows "takeWhile (\<lambda>x. x \<noteq> b) (drop i xs) =
           slice xs i (case indexOfFrom xs b i of None \<Rightarrow> length xs | Some k \<Rightarrow> k)"
proof (cases "indexOfFrom xs b i")
  case None
  have "x \<noteq> b" if "x \<in> set (drop i xs)" for x
  proof -
    from that obtain j where "j < length xs - i" "x = xs ! (i + j)"
      by (auto simp: in_set_conv_nth)
    with None show ?thesis
      using indexOfFrom_None[THEN iffD1, rule_format, of xs b i "i + j"] by simp
  qed
  then have "takeWhile (\<lambda>x. x \<noteq> b) (drop i xs) = drop i xs"
    by (intro takeWhile_eq_all_conv[THEN iffD2]) blast
  then show ?thesis using None by (simp add: slice_def)
next
  case (Some k)
  then have k: "i \<le> k" "k < length xs" "xs ! k = b" "\<forall>j. i \<le> j \<and> j < k \<longrightarrow> xs ! j \<noteq> b"
    by (auto simp: indexOfFrom_Some)
  have "takeWhile (\<lambda>x. x \<noteq> b) (drop i xs) = take (k - i) (drop i xs)"
    using k by (intro takeWhile_eq_take_P_nth) auto
  then show ?thesis using Some by (simp add: slice_def)
qed

lemma indexOfFrom_dropWhile:
  assumes "i \<le> length xs"
  shows "dropWhile (\<lambda>x. x \<noteq> b) (drop i xs) =
           drop (case indexOfFrom xs b i of None \<Rightarrow> length xs | Some k \<Rightarrow> k) xs"
proof -
  let ?k = "case indexOfFrom xs b i of None \<Rightarrow> length xs | Some k \<Rightarrow> k"
  have ik: "i \<le> ?k" "?k \<le> length xs"
    using assms by (auto simp: indexOfFrom_Some split: option.splits)
  have "dropWhile (\<lambda>x. x \<noteq> b) (drop i xs) = drop (length (takeWhile (\<lambda>x. x \<noteq> b) (drop i xs))) (drop i xs)"
    by (rule dropWhile_eq_drop)
  also have "length (takeWhile (\<lambda>x. x \<noteq> b) (drop i xs)) = ?k - i"
    using indexOfFrom_takeWhile[OF assms, of b] ik by (simp add: slice_def)
  finally show ?thesis using ik by simp
qed

lemma splitOn_unfold:
  "splitOn sep xs =
     takeWhile (\<lambda>x. x \<noteq> sep) xs #
       (case dropWhile (\<lambda>x. x \<noteq> sep) xs of [] \<Rightarrow> [] | _ # rest \<Rightarrow> splitOn sep rest)"
  by (induction xs) (auto split: list.splits)

lemma hex_ranges:
  "c \<in> set (str ''0123456789'') \<longleftrightarrow> 0x30 \<le> c \<and> c \<le> 0x39"
  "c \<in> set (str ''abcdef'') \<longleftrightarrow> 0x61 \<le> c \<and> c \<le> 0x66"
  "c \<in> set (str ''ABCDEF'') \<longleftrightarrow> 0x41 \<le> c \<and> c \<le> 0x46"
  unfolding str_def by (simp_all, presburger+)

lemma decodeHexDigit_hexDigitValue:
  "decodeHexDigit c = (case hexDigitValue c of None \<Rightarrow> -1 | Some v \<Rightarrow> int v)"
  unfolding hexDigitValue_def decodeHexDigit_def hex_ranges
  by (auto split: if_splits)

lemma percentDecodeBytes_other:
  "p \<noteq> 0x25 \<Longrightarrow> percentDecodeBytes (p # rest) = p # percentDecodeBytes rest"
  by simp

lemma percentDecodeBytes_escape:
  "hexDigitValue h = Some hi \<Longrightarrow> hexDigitValue l = Some lo \<Longrightarrow>
   percentDecodeBytes (0x25 # h # l # rest) = (16 * hi + lo) # percentDecodeBytes rest"
  by (simp add: decodeHexDigitAt_def at_def decodeHexDigit_hexDigitValue Let_def nat_add_distrib nat_mult_distrib)

lemma percentDecodeBytes_percent:
  "hexDigitValue h = None \<or> hexDigitValue l = None \<Longrightarrow>
   percentDecodeBytes (0x25 # h # l # rest) = 0x25 # percentDecodeBytes (h # l # rest)"
  by (auto simp add: decodeHexDigitAt_def at_def decodeHexDigit_hexDigitValue Let_def
      simp del: percentDecodeBytes.simps(2) split: option.splits
      intro: percentDecodeBytes.simps(2)[of 37, simplified, THEN trans])

lemma percentDecodeBytes_short:
  "percentDecodeBytes [] = []" "percentDecodeBytes [a] = [a]" "percentDecodeBytes [a, b] = [a, b]"
  by (simp_all add: decodeHexDigitAt_def at_def Let_def)

lemma percentDecodeBytes_spec: "percentDecodeBytes bs = percentDecodeSpec bs"
proof (induction bs rule: percentDecodeSpec.induct)
  case (1 p h l rest)
  show ?case
  proof (cases "p = 0x25")
    case False
    then show ?thesis
      using "1.IH" by (simp add: percentDecodeBytes_other del: percentDecodeBytes.simps split: option.splits)
  next
    case True
    show ?thesis
    proof (cases "hexDigitValue h = None \<or> hexDigitValue l = None")
      case n: True
      then show ?thesis
        using "1.IH" True
        by (auto simp add: percentDecodeBytes_percent simp del: percentDecodeBytes.simps split: option.splits)
    next
      case False
      then obtain hi lo where "hexDigitValue h = Some hi" "hexDigitValue l = Some lo" by auto
      then show ?thesis
        using "1.IH" True
        by (simp add: percentDecodeBytes_escape del: percentDecodeBytes.simps)
    qed
  qed
qed (simp_all add: percentDecodeBytes_short del: percentDecodeBytes.simps(2))

lemma parseUrlencodedEntry_eq:
  "parseUrlencodedEntry chunk =
     (case splitAtFirst 61 chunk of
        (n, v) \<Rightarrow> (utf8Decode (percentDecodeSpec (plusToSpace n)),
                   utf8Decode (percentDecodeSpec (plusToSpace v))))"
proof -
  let ?k = "case indexOfFrom chunk 61 0 of None \<Rightarrow> length chunk | Some k \<Rightarrow> k"
  have t: "takeWhile (\<lambda>x. x \<noteq> 61) chunk = slice chunk 0 ?k"
    using indexOfFrom_takeWhile[of 0 chunk 61] by simp
  have d: "dropWhile (\<lambda>x. x \<noteq> 61) chunk = drop ?k chunk"
    using indexOfFrom_dropWhile[of 0 chunk 61] by simp
  show ?thesis
    by (simp add: parseUrlencodedEntry_def splitAtFirst_def t d replacePlus_eq
        percentDecodeBytes_spec Let_def)
qed

lemma parseUrlencodedLoop_eq:
  "lastIdx \<le> length input \<Longrightarrow> idx < length input \<Longrightarrow>
   parseUrlencodedLoop input lastIdx idx entries =
     entries @ map parseUrlencodedEntry (filter (\<lambda>chunk. chunk \<noteq> []) (splitOn 38 (drop lastIdx input)))"
proof (induction "length input - lastIdx" arbitrary: lastIdx idx entries rule: less_induct)
  case less
  let ?k = "case indexOfFrom input 38 lastIdx of None \<Rightarrow> length input | Some k \<Rightarrow> k"
  let ?chunk = "slice input lastIdx ?k"
  let ?entries = "if ?chunk = [] then entries else entries @ [parseUrlencodedEntry ?chunk]"
  have ik: "lastIdx \<le> ?k" "?k \<le> length input"
    using less.prems by (auto simp: indexOfFrom_Some split: option.splits)
  have step: "parseUrlencodedLoop input lastIdx idx entries =
      parseUrlencodedLoop input (?k + 1) ?k ?entries"
    using less.prems(2) by (subst parseUrlencodedLoop.simps) (simp add: Let_def)
  have t: "takeWhile (\<lambda>x. x \<noteq> 38) (drop lastIdx input) = ?chunk"
    using indexOfFrom_takeWhile[OF less.prems(1)] by simp
  have d: "dropWhile (\<lambda>x. x \<noteq> 38) (drop lastIdx input) = drop ?k input"
    using indexOfFrom_dropWhile[OF less.prems(1)] by simp
  show ?case
  proof (cases "?k < length input")
    case True
    then have dk: "drop ?k input = input ! ?k # drop (?k + 1) input"
      by (simp add: Cons_nth_drop_Suc)
    have "parseUrlencodedLoop input (?k + 1) ?k ?entries =
        ?entries @ map parseUrlencodedEntry
          (filter (\<lambda>chunk. chunk \<noteq> []) (splitOn 38 (drop (?k + 1) input)))"
      using True ik less.prems less.hyps[of "?k + 1" ?k ?entries] by simp
    moreover have "splitOn 38 (drop lastIdx input) = ?chunk # splitOn 38 (drop (?k + 1) input)"
      by (subst splitOn_unfold) (simp add: t d dk)
    ultimately show ?thesis
      using step by simp
  next
    case False
    then have k: "?k = length input" using ik by simp
    have "parseUrlencodedLoop input (?k + 1) ?k ?entries = ?entries"
      using k by (subst parseUrlencodedLoop.simps) simp
    moreover have "splitOn 38 (drop lastIdx input) = [?chunk]"
      by (subst splitOn_unfold) (simp add: t d k)
    ultimately show ?thesis
      using step by simp
  qed
qed

text \<open>Claim C7. For every byte sequence, \<open>parseUrlencoded\<close> yields, in chunk order, one pair
  for every non-empty chunk between \<open>&\<close> bytes: the chunk is split at its first \<open>=\<close>
  (the value half is empty when there is none), every \<open>+\<close> byte of both halves becomes a
  space, and each half is percent-decoded and then UTF-8-decoded. So the bytes of
  \<open>a=%41+b&&c&%zz=%C3%A9=%2\<close> give the three pairs \<open>a\<close> and \<open>A b\<close>, \<open>c\<close> and the empty
  string, \<open>%zz\<close> and U+00E9 followed by \<open>=%2\<close>.\<close>

theorem parseUrlencoded_spec:
  "parseUrlencoded input = parseUrlencodedSpec input
   \<and> parseUrlencoded (str ''a=%41+b&&c&%zz=%C3%A9=%2'') =
       [(str ''a'', str ''A b''), (str ''c'', []), (str ''%zz'', 0xE9 # str ''=%2'')]"
proof -
  have eq: "parseUrlencoded bs = parseUrlencodedSpec bs" for bs
  proof (cases "bs = []")
    case True
    then show ?thesis
      by (simp add: parseUrlencoded_def parseUrlencodedSpec_def parseUrlencodedLoop.simps)
  next
    case False
    then have "parseUrlencoded bs =
        map parseUrlencodedEntry (filter (\<lambda>chunk. chunk \<noteq> []) (splitOn 38 bs))"
      using parseUrlencodedLoop_eq[of 0 bs 0 "[]"] by (simp add: parseUrlencoded_def)
    then show ?thesis
      by (simp add: parseUrlencodedSpec_def parseUrlencodedEntry_eq[abs_def])
  qed
  have "parseUrlencodedSpec (str ''a=%41+b&&c&%zz=%C3%A9=%2'') =
       [(str ''a'', str ''A b''), (str ''c'', []), (str ''%zz'', 0xE9 # str ''=%2'')]"
    apply (simp add: parseUrlencodedSpec_def str_def splitAtFirst_def plusToSpace_def)
    apply (simp add: utf8Decode_def utf8DecodeLoop.simps fromCodePoint_def hexDigitValue_def
        str_def)
    done
  then show ?thesis
    using eq by simp
qed

text \<open>\<open>set\<close> as the specification words it: the first pair with the name gets the value and
  keeps its place, every later pair with the name goes, and a list without the name gets
  the pair at its end.\<close>

fun setSpec :: "jsstring \<Rightarrow> jsstring \<Rightarrow> (jsstring \<times> jsstring) list \<Rightarrow> (jsstring \<times> jsstring) list" where
  "setSpec name val [] = [(name, val)]"
| "setSpec name val (p # rest) =
     (if fst p = name then (fst p, val) # filter (\<lambda>q. fst q \<noteq> name) rest
      else p # setSpec name val rest)"

lemma take_splice1: "take idx (splice1 xs idx) = take idx xs"
  by (simp add: splice1_def min_def)

lemma drop_splice1: "idx < length xs \<Longrightarrow> drop idx (splice1 xs idx) = drop (Suc idx) xs"
  by (simp add: splice1_def min_def)

lemma setLoop_True:
  "idx \<le> length xs \<Longrightarrow>
   setLoop name val xs True idx = (take idx xs @ filter (\<lambda>q. fst q \<noteq> name) (drop idx xs), True)"
proof (induction "length xs - idx" arbitrary: xs idx)
  case 0
  then show ?case by (subst setLoop.simps) simp
next
  case (Suc n)
  then have lt: "idx < length xs" by simp
  then have d: "drop idx xs = xs ! idx # drop (Suc idx) xs"
    by (simp add: Cons_nth_drop_Suc)
  show ?case
  proof (cases "fst (xs ! idx) = name")
    case True
    have len: "length (splice1 xs idx) = length xs - 1"
      using lt by (simp add: splice1_def)
    have "setLoop name val xs True idx = setLoop name val (splice1 xs idx) True idx"
      using lt True by (subst setLoop.simps) simp
    also have "\<dots> = (take idx (splice1 xs idx) @
        filter (\<lambda>q. fst q \<noteq> name) (drop idx (splice1 xs idx)), True)"
      using Suc.hyps(2) lt len by (intro Suc.hyps(1)) simp_all
    finally show ?thesis
      using True d lt by (simp add: take_splice1 drop_splice1)
  next
    case False
    have "setLoop name val xs True idx = setLoop name val xs True (idx + 1)"
      using lt False by (subst setLoop.simps) simp
    also have "\<dots> = (take (idx + 1) xs @ filter (\<lambda>q. fst q \<noteq> name) (drop (idx + 1) xs), True)"
      using Suc.hyps(2) lt by (intro Suc.hyps(1)) simp_all
    finally show ?thesis
      using False d lt by (simp add: take_Suc_conv_app_nth)
  qed
qed

lemma setSpec_nomatch:
  "\<forall>q\<in>set xs. fst q \<noteq> name \<Longrightarrow> setSpec name val xs = xs @ [(name, val)]"
  by (induction xs) auto

lemma setLoop_False:
  "idx \<le> length xs \<Longrightarrow>
   setLoop name val xs False idx =
     (if \<exists>q\<in>set (drop idx xs). fst q = name
      then (take idx xs @ setSpec name val (drop idx xs), True) else (xs, False))"
proof (induction "length xs - idx" arbitrary: idx)
  case 0
  then show ?case by (subst setLoop.simps) simp
next
  case (Suc n)
  then have lt: "idx < length xs" by simp
  then have d: "drop idx xs = xs ! idx # drop (Suc idx) xs"
    by (simp add: Cons_nth_drop_Suc)
  show ?case
  proof (cases "fst (xs ! idx) = name")
    case True
    let ?ys = "xs[idx := (fst (xs ! idx), val)]"
    have "setLoop name val xs False idx = setLoop name val ?ys True (idx + 1)"
      using lt True by (subst setLoop.simps) simp
    also have "\<dots> = (take (idx + 1) ?ys @ filter (\<lambda>q. fst q \<noteq> name) (drop (idx + 1) ?ys), True)"
      using lt by (intro setLoop_True) simp
    also have "take (idx + 1) ?ys = take idx xs @ [(fst (xs ! idx), val)]"
      using lt by (simp add: take_Suc_conv_app_nth)
    also have "drop (idx + 1) ?ys = drop (Suc idx) xs" by simp
    finally show ?thesis using True d by simp
  next
    case False
    have "setLoop name val xs False idx = setLoop name val xs False (idx + 1)"
      using lt False by (subst setLoop.simps) simp
    also have "\<dots> = (if \<exists>q\<in>set (drop (idx + 1) xs). fst q = name
      then (take (idx + 1) xs @ setSpec name val (drop (idx + 1) xs), True) else (xs, False))"
      using Suc.hyps(1)[of "idx + 1"] Suc.hyps(2) lt by simp
    finally show ?thesis using False d lt by (simp add: take_Suc_conv_app_nth)
  qed
qed

lemma setSpec_others:
  "filter (\<lambda>q. fst q \<noteq> name) (setSpec name val xs) = filter (\<lambda>q. fst q \<noteq> name) xs"
  by (induction xs) auto

lemma sp_list_updateInternalURL: "sp_list (updateInternalURL i) = sp_list i"
  by (simp add: updateInternalURL_def Let_def split: option.splits)

text \<open>Claim C6. For every list and all strings \<open>name\<close> and \<open>val\<close>, \<open>set(name, val)\<close>
  replaces the value of the first pair named \<open>name\<close> in place, removes every later pair
  with that name, and appends \<open>(name, val)\<close> if no pair matches; the other pairs keep
  their relative order.\<close>

theorem URLSearchParams_set_spec:
  "sp_list (URLSearchParams_set name val internals) = setSpec name val (sp_list internals)
   \<and> filter (\<lambda>q. fst q \<noteq> name) (sp_list (URLSearchParams_set name val internals)) =
       filter (\<lambda>q. fst q \<noteq> name) (sp_list internals)"
proof -
  have "sp_list (URLSearchParams_set name val internals) = setSpec name val (sp_list internals)"
  proof (cases "\<exists>q\<in>set (sp_list internals). fst q = name")
    case True
    then show ?thesis
      using setLoop_False[of 0 "sp_list internals" name val]
      by (simp add: URLSearchParams_set_def sp_list_updateInternalURL)
  next
    case False
    then show ?thesis
      using setLoop_False[of 0 "sp_list internals" name val]
        setSpec_nomatch[of "sp_list internals" name val]
      by (simp add: URLSearchParams_set_def sp_list_updateInternalURL)
  qed
  then show ?thesis by (simp add: setSpec_others)
qed

text \<open>The urlencoded serializer as the URL Standard words it. A string is encoded as UTF-8;
  a space byte becomes \<open>+\<close>; the bytes of the ASCII letters and digits and of \<open>*\<close>, \<open>-\<close>,
  \<open>.\<close> and \<open>_\<close> stand for themselves; every other byte becomes \<open>%\<close> and its two
  uppercase hexadecimal digits. A pair is its name, \<open>=\<close> and its value, and the pairs are
  joined by \<open>&\<close>. The query of an empty list is absent. A JavaScript string has code units
  below \<open>0x10000\<close>.\<close>

definition codeUnits :: "jsstring \<Rightarrow> bool" where
  "codeUnits s = (\<forall>c\<in>set s. c < 0x10000)"

definition codeUnitPairs :: "(jsstring \<times> jsstring) list \<Rightarrow> bool" where
  "codeUnitPairs xs = (\<forall>q\<in>set xs. codeUnits (fst q) \<and> codeUnits (snd q))"

definition urlencodedKeeps :: "nat \<Rightarrow> bool" where
  "urlencodedKeeps b =
     (b \<in> set (str ''*-._0123456789ABCDEFGHIJKLMNOPQRSTUVWXYZabcdefghijklmnopqrstuvwxyz''))"

definition upperHexDigit :: "nat \<Rightarrow> nat" where
  "upperHexDigit d = str ''0123456789ABCDEF'' ! d"

definition urlencodedByte :: "nat \<Rightarrow> jsstring" where
  "urlencodedByte b =
     (if b = 0x20 then str ''+''
      else if urlencodedKeeps b then [b]
      else [0x25, upperHexDigit (b div 16), upperHexDigit (b mod 16)])"

definition urlencodedString :: "jsstring \<Rightarrow> jsstring" where
  "urlencodedString s = concat (map urlencodedByte (utf8Encode s))"

fun serializeUrlencodedSpec :: "(jsstring \<times> jsstring) list \<Rightarrow> jsstring" where
  "serializeUrlencodedSpec [] = []"
| "serializeUrlencodedSpec [(n, v)] = urlencodedString n @ str ''='' @ urlencodedString v"
| "serializeUrlencodedSpec ((n, v) # rest) =
     urlencodedString n @ str ''='' @ urlencodedString v @ str ''&'' @ serializeUrlencodedSpec rest"

definition serializedQuery :: "(jsstring \<times> jsstring) list \<Rightarrow> jsstring option" where
  "serializedQuery xs = (if xs = [] then None else Some (serializeUrlencodedSpec xs))"

text \<open>The query \<open>updateInternalURL\<close> stores: the serialized list, \<open>null\<close> when that is the
  empty string.\<close>

definition listQuery :: "(jsstring \<times> jsstring) list \<Rightarrow> jsstring option" where
  "listQuery xs = (let q = serializeUrlencoded xs in if q = [] then None else Some q)"

lemma sp_url_updateInternalURL:
  "sp_url i = Some u \<Longrightarrow>
   sp_url (updateInternalURL i) = Some (u\<lparr>query := listQuery (sp_list i)\<rparr>)"
  by (simp add: updateInternalURL_def updateURLQuery_def listQuery_def Let_def)

lemma deleteLoop_nomatch:
  "\<forall>q\<in>set xs. fst q \<noteq> name \<Longrightarrow> deleteLoop name val xs idx = xs"
proof (induction "length xs - idx" arbitrary: idx)
  case 0
  then show ?case by (subst deleteLoop.simps) simp
next
  case (Suc n)
  then have lt: "idx < length xs" by simp
  then have "fst (xs ! idx) \<noteq> name" using Suc.prems by simp
  then have "deleteLoop name val xs idx = deleteLoop name val xs (idx + 1)"
    using lt by (subst deleteLoop.simps) simp
  also have "\<dots> = xs"
    using Suc.hyps(2) Suc.prems by (intro Suc.hyps(1)) simp_all
  finally show ?case .
qed

lemma serializeUrlencodedLoop_nonempty:
  "xs \<noteq> [] \<or> out \<noteq> [] \<Longrightarrow> serializeUrlencodedLoop xs first out \<noteq> []"
  by (induction xs arbitrary: first out) (auto simp: Let_def)

lemma listQuery_None_iff: "listQuery xs = None \<longleftrightarrow> xs = []"
  using serializeUrlencodedLoop_nonempty[of xs "[]" True]
  by (cases xs) (auto simp: listQuery_def serializeUrlencoded_def Let_def)

lemma urlencodedKeeps_ranges:
  "urlencodedKeeps b \<longleftrightarrow>
     b = 42 \<or> b = 45 \<or> b = 46 \<or> b = 95 \<or> (48 \<le> b \<and> b \<le> 57) \<or> (65 \<le> b \<and> b \<le> 90)
     \<or> (97 \<le> b \<and> b \<le> 122)"
  unfolding urlencodedKeeps_def str_def by (simp, presburger)

lemma isURLEncodedPercentEncode_keeps: "isURLEncodedPercentEncode b \<longleftrightarrow> \<not> urlencodedKeeps b"
  unfolding urlencodedKeeps_ranges isURLEncodedPercentEncode_def isComponentPercentEncode_def
    isUserinfoPercentEncode_def isPathPercentEncode_def isQueryPercentEncode_def
    isC0ControlPercentEncode_def
  by (simp, presburger)

lemma less_16_cases:
  "d < (16::nat) \<Longrightarrow> d = 0 \<or> d = 1 \<or> d = 2 \<or> d = 3 \<or> d = 4 \<or> d = 5 \<or> d = 6 \<or> d = 7 \<or> d = 8
     \<or> d = 9 \<or> d = 10 \<or> d = 11 \<or> d = 12 \<or> d = 13 \<or> d = 14 \<or> d = 15"
  by presburger

lemma upperHexDigit_digitChar: "d < 16 \<Longrightarrow> asciiUpper (digitChar d) = upperHexDigit d"
  by (drule less_16_cases) (auto simp: asciiUpper_def digitChar_def upperHexDigit_def str_def)

lemma toStringRadix_16_byte:
  assumes "b < 256"
  shows "toStringRadix 16 b = (if b < 16 then [digitChar b] else [digitChar (b div 16), digitChar (b mod 16)])"
proof (cases "b < 16")
  case True
  then show ?thesis by (subst toStringRadix.simps) simp
next
  case False
  have "b div 16 < 16" using assms by simp
  then have "toStringRadix 16 (b div 16) = [digitChar (b div 16)]"
    by (subst toStringRadix.simps) simp
  then show ?thesis using False by (subst toStringRadix.simps) simp
qed

lemma percentEncode_byte:
  assumes "b < 256"
  shows "percentEncode b = [0x25, upperHexDigit (b div 16), upperHexDigit (b mod 16)]"
proof -
  have d: "b div 16 < 16" "b mod 16 < 16" using assms by simp_all
  have z: "upperHexDigit 0 = 0x30" by (simp add: upperHexDigit_def str_def)
  show ?thesis
    using d z
    by (simp add: percentEncode_def toStringRadix_16_byte[OF assms] upperHexDigit_digitChar Let_def)
qed

lemma codePoints_bound:
  "\<forall>c\<in>set s. c < 0x10000 \<Longrightarrow> \<forall>c\<in>set (codePoints s). c < 0x110000"
proof (induction s rule: codePoints.induct)
  case (1 h l rest)
  have "surrogatePair h l < 0x110000" if "isLeadSurrogate h" "isTrailSurrogate l"
  proof -
    have "h - 0xD800 \<le> 0x3FF" "l - 0xDC00 \<le> 0x3FF"
      using that unfolding isLeadSurrogate_def isTrailSurrogate_def by linarith+
    moreover from this have "(h - 0xD800) * 0x400 \<le> 0x3FF * 0x400"
      by (intro mult_right_mono) simp_all
    ultimately show ?thesis
      unfolding surrogatePair_def by linarith
  qed
  with 1 show ?case by auto
qed simp_all

lemma utf8Bytes_bound:
  assumes "c < 0x110000"
  shows "\<forall>b\<in>set (utf8Bytes c). b < 256"
proof -
  have m: "x mod 0x40 < 0x80" for x :: nat
    by (rule less_trans[OF mod_less_divisor]) simp_all
  have a: "c div 0x40 < 0x40" if "c < 0x800"
    using that by (intro less_mult_imp_div_less) simp
  have b: "c div 0x1000 < 0x20" if "c < 0x10000"
    using that by (intro less_mult_imp_div_less) simp
  have d: "c div 0x40000 < 0x10"
    using assms by (intro less_mult_imp_div_less) simp
  show ?thesis
    using m a b d by (simp add: utf8Bytes_def)
qed

lemma utf8Encode_bound:
  assumes "codeUnits s"
  shows "\<forall>b\<in>set (utf8Encode s). b < 256"
proof -
  have "toScalar c < 0x110000" if "c \<in> set (codePoints s)" for c
    using codePoints_bound[of s] assms that by (auto simp: toScalar_def codeUnits_def)
  then show ?thesis
    using utf8Bytes_bound by (auto simp: utf8Encode_def)
qed

lemma utf8PercentEncodeString_spec:
  assumes "codeUnits s"
  shows "utf8PercentEncodeString s isURLEncodedPercentEncode True = urlencodedString s"
proof -
  have "(if b = 32 then [0x2B] else percentEncodeByte isURLEncodedPercentEncode b) = urlencodedByte b"
    if "b < 256" for b
    using that
    by (simp add: percentEncodeByte_def isURLEncodedPercentEncode_keeps urlencodedByte_def
        percentEncode_byte str_def)
  then show ?thesis
    using utf8Encode_bound[OF assms]
    by (simp add: utf8PercentEncodeString_def urlencodedString_def cong: map_cong)
qed

lemma serializeUrlencodedLoop_spec:
  "codeUnitPairs xs \<Longrightarrow>
   serializeUrlencodedLoop xs first out =
     out @ (if xs = [] then [] else (if first then [] else str ''&'') @ serializeUrlencodedSpec xs)"
proof (induction xs arbitrary: first out rule: serializeUrlencodedSpec.induct)
  case 1
  show ?case by simp
next
  case (2 n v)
  then show ?case
    by (simp add: codeUnitPairs_def utf8PercentEncodeString_spec str_def)
next
  case (3 n v q rest)
  then have "codeUnitPairs (q # rest)" "codeUnits n" "codeUnits v"
    by (simp_all add: codeUnitPairs_def)
  then show ?case
    using "3.IH"[of False]
    by (simp add: utf8PercentEncodeString_spec str_def)
qed

lemma listQuery_spec: "codeUnitPairs xs \<Longrightarrow> listQuery xs = serializedQuery xs"
  using serializeUrlencodedLoop_spec[of xs True "[]"] listQuery_None_iff[of xs]
  by (auto simp: listQuery_def serializedQuery_def serializeUrlencoded_def Let_def)

lemma deleteLoop_subset: "set (deleteLoop name val xs idx) \<subseteq> set xs"
proof (induction name val xs idx rule: deleteLoop.induct)
  case (1 name val xs idx)
  have s: "set (splice1 xs idx) \<subseteq> set xs"
    using set_take_subset[of idx xs] set_drop_subset[of "idx + 1" xs]
    by (auto simp: splice1_def)
  show ?case
    using 1 s by (subst deleteLoop.simps) auto
qed

lemma setSpec_subset: "set (setSpec name val xs) \<subseteq> insert (name, val) (set xs)"
  by (induction xs) auto

lemma codeUnitPairs_setSpec:
  assumes "codeUnitPairs xs" and "codeUnits name" and "codeUnits val"
  shows "codeUnitPairs (setSpec name val xs)"
  unfolding codeUnitPairs_def
proof
  fix q assume "q \<in> set (setSpec name val xs)"
  then have "q = (name, val) \<or> q \<in> set xs"
    using setSpec_subset[of name val xs] by blast
  then show "codeUnits (fst q) \<and> codeUnits (snd q)"
    using assms unfolding codeUnitPairs_def by auto
qed

lemma sp_list_set:
  "sp_list (URLSearchParams_set name val internals) = setSpec name val (sp_list internals)"
proof (cases "\<exists>q\<in>set (sp_list internals). fst q = name")
  case True
  then show ?thesis
    using setLoop_False[of 0 "sp_list internals" name val]
    by (simp add: URLSearchParams_set_def sp_list_updateInternalURL)
next
  case False
  then show ?thesis
    using setLoop_False[of 0 "sp_list internals" name val]
      setSpec_nomatch[of "sp_list internals" name val]
    by (simp add: URLSearchParams_set_def sp_list_updateInternalURL)
qed

text \<open>Claim C9. With a parent URL attached, \<open>append\<close>, \<open>delete\<close>, \<open>set\<close> and \<open>sort\<close> each
  overwrite the parent's query with the urlencoded serialization of the list as it is after
  the call, whether or not the call changed the list: \<open>delete\<close> of a name that matches no
  entry leaves the list alone and still rewrites the query, and the query becomes absent
  exactly when the list is empty. The names and values are JavaScript strings.\<close>

theorem searchParams_mutation_rewrites_query:
  assumes "sp_url internals = Some u"
    and "codeUnitPairs (sp_list internals)" and "codeUnits name" and "codeUnits val"
  shows "sp_url (URLSearchParams_append name val internals) =
           Some (u\<lparr>query := serializedQuery (sp_list (URLSearchParams_append name val internals))\<rparr>)
       \<and> sp_url (URLSearchParams_delete name optval internals) =
           Some (u\<lparr>query := serializedQuery (sp_list (URLSearchParams_delete name optval internals))\<rparr>)
       \<and> sp_url (URLSearchParams_set name val internals) =
           Some (u\<lparr>query := serializedQuery (sp_list (URLSearchParams_set name val internals))\<rparr>)
       \<and> sp_url (URLSearchParams_sort internals) =
           Some (u\<lparr>query := serializedQuery (sp_list (URLSearchParams_sort internals))\<rparr>)
       \<and> ((\<forall>q\<in>set (sp_list internals). fst q \<noteq> name) \<longrightarrow>
            URLSearchParams_delete name optval internals =
              internals\<lparr>sp_url := Some (u\<lparr>query := serializedQuery (sp_list internals)\<rparr>)\<rparr>)
       \<and> (serializedQuery (sp_list internals) = None \<longleftrightarrow> sp_list internals = [])"
proof -
  have pa: "codeUnitPairs (sp_list internals @ [(name, val)])"
    using assms by (simp add: codeUnitPairs_def)
  have pd: "codeUnitPairs (deleteLoop name optval (sp_list internals) 0)"
    using assms(2) deleteLoop_subset[of name optval "sp_list internals" 0]
    by (auto simp: codeUnitPairs_def)
  have ps: "codeUnitPairs (setSpec name val (sp_list internals))"
    using assms by (intro codeUnitPairs_setSpec)
  have pt: "codeUnitPairs (sort_key fst (sp_list internals))"
    using assms(2) by (simp add: codeUnitPairs_def)
  have a: "sp_url (URLSearchParams_append name val internals) =
           Some (u\<lparr>query := serializedQuery (sp_list (URLSearchParams_append name val internals))\<rparr>)"
    using assms(1) pa
    by (simp add: URLSearchParams_append_def sp_url_updateInternalURL sp_list_updateInternalURL
        listQuery_spec)
  have d: "sp_url (URLSearchParams_delete name optval internals) =
           Some (u\<lparr>query := serializedQuery (sp_list (URLSearchParams_delete name optval internals))\<rparr>)"
    using assms(1) pd
    by (simp add: URLSearchParams_delete_def sp_url_updateInternalURL sp_list_updateInternalURL
        listQuery_spec)
  have s0: "sp_url (URLSearchParams_set name val internals) =
           Some (u\<lparr>query := listQuery (sp_list (URLSearchParams_set name val internals))\<rparr>)"
    using assms(1)
    by (simp add: URLSearchParams_set_def sp_url_updateInternalURL sp_list_updateInternalURL
        split: prod.splits)
  have s: "sp_url (URLSearchParams_set name val internals) =
           Some (u\<lparr>query := serializedQuery (sp_list (URLSearchParams_set name val internals))\<rparr>)"
    using s0 ps by (simp add: sp_list_set listQuery_spec)
  have t: "sp_url (URLSearchParams_sort internals) =
           Some (u\<lparr>query := serializedQuery (sp_list (URLSearchParams_sort internals))\<rparr>)"
    using assms(1) pt
    by (simp add: URLSearchParams_sort_def sp_url_updateInternalURL sp_list_updateInternalURL
        listQuery_spec)
  have n: "URLSearchParams_delete name optval internals =
              internals\<lparr>sp_url := Some (u\<lparr>query := serializedQuery (sp_list internals)\<rparr>)\<rparr>"
    if "\<forall>q\<in>set (sp_list internals). fst q \<noteq> name"
    using assms(1) deleteLoop_nomatch[OF that, of optval 0] listQuery_spec[OF assms(2)]
    by (simp add: URLSearchParams_delete_def updateInternalURL_def updateURLQuery_def listQuery_def Let_def)
  have e: "serializedQuery (sp_list internals) = None \<longleftrightarrow> sp_list internals = []"
    by (simp add: serializedQuery_def)
  show ?thesis
    by (intro conjI impI a d s t n e)
qed

lemmas percentEncode_eval =
  str_def percentEncodeByte_def percentEncode_def toStringRadix.simps digitChar_def
  asciiUpper_def isURLEncodedPercentEncode_def isComponentPercentEncode_def
  isUserinfoPercentEncode_def isPathPercentEncode_def isQueryPercentEncode_def
  isSpecialQueryPercentEncode_def isFragmentPercentEncode_def
  isC0ControlPercentEncode_def utf8Encode_def utf8Bytes_def toScalar_def
  isLeadSurrogate_def isTrailSurrogate_def surrogatePair_def fromCodePoint_def
  utf8PercentEncodeString_def utf8PercentEncodeCodePoint_def Let_def

definition exampleParent :: URLAbstract where
  "exampleParent =
     \<lparr>scheme = str ''http'', username = [], password = [], host = Some (str ''h''),
      port = None, path = [[]], query = Some (str ''a%20b=c&%C3%A9=/~''), fragment = None,
      opaquePath = False\<rparr>"

definition exampleParams :: URLSearchParamsInternals where
  "exampleParams =
     \<lparr>sp_list = [(str ''a b'', str ''c''), ([0xE9], str ''/~'')], sp_url = Some exampleParent\<rparr>"

theorem searchParams_mutation_rewrites_query_witness:
  "sp_url exampleParams = Some exampleParent
   \<and> str ''zz'' \<notin> fst ` set (sp_list exampleParams)
   \<and> URLSearchParams_delete (str ''zz'') None exampleParams =
       exampleParams\<lparr>sp_url := Some (exampleParent\<lparr>query := Some (str ''a+b=c&%C3%A9=%2F%7E'')\<rparr>)\<rparr>
   \<and> query exampleParent = Some (str ''a%20b=c&%C3%A9=/~'')"
proof -
  have h: "sp_url exampleParams = Some exampleParent"
    by (simp add: exampleParams_def)
  have p: "codeUnitPairs (sp_list exampleParams)"
    by (simp add: exampleParams_def codeUnitPairs_def codeUnits_def str_def)
  have c: "codeUnits (str ''zz'')" "codeUnits []"
    by (simp_all add: codeUnits_def str_def)
  have n: "\<forall>q\<in>set (sp_list exampleParams). fst q \<noteq> str ''zz''"
    by (simp add: exampleParams_def str_def)
  have e1: "utf8Encode (str ''a b'') = str ''a b''" "utf8Encode (str ''c'') = str ''c''"
    "utf8Encode [0xE9] = [0xC3, 0xA9]" "utf8Encode (str ''/~'') = str ''/~''"
    by (simp_all add: utf8Encode_def utf8Bytes_def toScalar_def str_def isLeadSurrogate_def
        isTrailSurrogate_def)
  have e2: "urlencodedByte 97 = [97]" "urlencodedByte 32 = [43]" "urlencodedByte 98 = [98]"
    "urlencodedByte 99 = [99]"
    by (simp_all add: urlencodedByte_def urlencodedKeeps_ranges str_def)
  have e3: "urlencodedByte 0xC3 = [37, 67, 51]" "urlencodedByte 0xA9 = [37, 65, 57]"
    "urlencodedByte 47 = [37, 50, 70]" "urlencodedByte 126 = [37, 55, 69]"
    by (simp_all add: urlencodedByte_def urlencodedKeeps_ranges upperHexDigit_def str_def)
  have q: "serializedQuery (sp_list exampleParams) = Some (str ''a+b=c&%C3%A9=%2F%7E'')"
    apply (simp add: exampleParams_def serializedQuery_def urlencodedString_def e1)
    apply (simp add: str_def e2 e3)
    done
  have o: "query exampleParent = Some (str ''a%20b=c&%C3%A9=/~'')"
    by (simp add: exampleParent_def)
  note T = searchParams_mutation_rewrites_query[OF h p c, where optval = None]
  note E = mp[OF T[THEN conjunct2, THEN conjunct2, THEN conjunct2, THEN conjunct2,
        THEN conjunct1] n]
  have n': "str ''zz'' \<notin> fst ` set (sp_list exampleParams)"
    using n by auto
  show ?thesis
    by (intro conjI h n' E[unfolded q] o)
qed

section \<open>IPv6 addresses (ip.ts)\<close>

text \<open>\<open>input[pointer]\<close> for a pointer that is never negative.\<close>

definition atn :: "nat list \<Rightarrow> nat \<Rightarrow> nat option" where
  "atn xs i = (if i < length xs then Some (xs ! i) else None)"

text \<open>The inner \<open>while (length < 4 && (digit = decodeHexDigit(input[pointer])) >= 0)\<close> of
  \<open>parseIPv6\<close>; the result is \<open>(value, pointer, length)\<close>. At most four digits are read, so
  \<open>(value << 4) + digit\<close> stays below \<open>2 ^ 16\<close> and the 32-bit shift is a multiplication.\<close>

function ipv6ReadHex :: "nat list \<Rightarrow> nat \<Rightarrow> nat \<Rightarrow> nat \<Rightarrow> nat \<times> nat \<times> nat" where
  "ipv6ReadHex inp ptr v len =
     (if len < 4 \<and> decodeHexDigitAt (atn inp ptr) \<ge> 0
      then ipv6ReadHex inp (ptr + 1) (v * 16 + nat (decodeHexDigitAt (atn inp ptr))) (len + 1)
      else (v, ptr, len))"
  by pat_completeness auto
termination
  by (relation "measure (\<lambda>(inp, ptr, v, len). 4 - len)") auto

declare ipv6ReadHex.simps [simp del]

text \<open>The digit loop of an embedded IPv4 number; \<open>None\<close> is \<open>return null\<close>, otherwise
  \<open>(ipv4Piece, pointer)\<close>.\<close>

function ipv6Ipv4Digits :: "nat list \<Rightarrow> nat \<Rightarrow> nat \<Rightarrow> (nat \<times> nat) option" where
  "ipv6Ipv4Digits inp ptr piece =
     (case atn inp ptr of
        None \<Rightarrow> Some (piece, ptr)
      | Some c \<Rightarrow>
          if 0x30 \<le> c \<and> c \<le> 0x39 then
            (let piece' = piece * 10 + nat (decodeHexDigit c)
             in if piece' > 255 then None else ipv6Ipv4Digits inp (ptr + 1) piece')
          else Some (piece, ptr))"
  by pat_completeness auto
termination
  by (relation "measure (\<lambda>(inp, ptr, piece). length inp - ptr)")
     (auto simp: atn_def split: if_splits)

declare ipv6Ipv4Digits.simps [simp del]

lemma ipv6Ipv4Digits_pointer:
  "ipv6Ipv4Digits inp ptr piece = Some (piece', ptr') \<Longrightarrow>
   ptr \<le> ptr' \<and> ((\<exists>c. atn inp ptr = Some c \<and> 0x30 \<le> c \<and> c \<le> 0x39) \<longrightarrow> ptr < ptr')"
proof (induction inp ptr piece rule: ipv6Ipv4Digits.induct)
  case (1 inp ptr piece)
  show ?case
  proof (cases "atn inp ptr")
    case None
    with "1.prems" show ?thesis by (subst (asm) ipv6Ipv4Digits.simps) simp
  next
    case (Some c)
    show ?thesis
    proof (cases "0x30 \<le> c \<and> c \<le> 0x39")
      case False
      with Some "1.prems" show ?thesis by (subst (asm) ipv6Ipv4Digits.simps) auto
    next
      case True
      let ?p = "piece * 10 + nat (decodeHexDigit c)"
      from True Some "1.prems" have le: "\<not> ?p > 255"
        and rec: "ipv6Ipv4Digits inp (ptr + 1) ?p = Some (piece', ptr')"
        by (subst (asm) ipv6Ipv4Digits.simps, simp add: Let_def split: if_splits)+
      from "1.IH"[OF Some True refl le rec] show ?thesis by simp
    qed
  qed
qed

text \<open>The \<open>while (input[pointer] !== undefined)\<close> loop over the embedded IPv4 numbers; the
  result is \<open>(address, pieceIndex, numbersSeen)\<close>. The piece written is below 8: the caller
  enters with \<open>pieceIndex \<le> 6\<close> and a fifth number is refused before the write.\<close>

function ipv6Ipv4Loop ::
  "nat list \<Rightarrow> nat list \<Rightarrow> nat \<Rightarrow> nat \<Rightarrow> nat \<Rightarrow> (nat list \<times> nat \<times> nat) option" where
  "ipv6Ipv4Loop inp address pieceIndex ptr numbersSeen =
     (if atn inp ptr \<noteq> None then
        (if numbersSeen > 0 \<and> \<not> (atn inp ptr = Some 46 \<and> numbersSeen < 4) then None
         else
           (let ptr1 = (if numbersSeen > 0 then ptr + 1 else ptr)
            in case atn inp ptr1 of
                 None \<Rightarrow> None
               | Some c \<Rightarrow>
                   if c < 0x30 \<or> c > 0x39 then None
                   else
                     (case ipv6Ipv4Digits inp ptr1 0 of
                        None \<Rightarrow> None
                      | Some (ipv4Piece, ptr2) \<Rightarrow>
                          ipv6Ipv4Loop inp
                            (address[pieceIndex := address ! pieceIndex * 0x100 + ipv4Piece])
                            (if (numbersSeen + 1) mod 2 = 0 then pieceIndex + 1 else pieceIndex)
                            ptr2 (numbersSeen + 1))))
      else Some (address, pieceIndex, numbersSeen))"
  by pat_completeness auto
termination
proof (relation "measure (\<lambda>(inp, address, pieceIndex, ptr, numbersSeen). length inp - ptr)", simp)
  fix inp address :: "nat list" and pieceIndex ptr numbersSeen ptr1 c :: nat
    and x :: "nat \<times> nat" and ipv4Piece ptr2 :: nat
  assume a: "atn inp ptr \<noteq> None"
    and p1: "ptr1 = (if 0 < numbersSeen then ptr + 1 else ptr)"
    and c: "atn inp ptr1 = Some c" "\<not> (c < 0x30 \<or> c > 0x39)"
    and d: "ipv6Ipv4Digits inp ptr1 0 = Some x" "(ipv4Piece, ptr2) = x"
  from d have "ipv6Ipv4Digits inp ptr1 0 = Some (ipv4Piece, ptr2)" by simp
  from ipv6Ipv4Digits_pointer[OF this] c have "ptr1 < ptr2" by auto
  moreover have "ptr \<le> ptr1" using p1 by simp
  moreover have "ptr < length inp" using a by (simp add: atn_def split: if_splits)
  ultimately show "((inp, address[pieceIndex := address ! pieceIndex * 0x100 + ipv4Piece],
      if (numbersSeen + 1) mod 2 = 0 then pieceIndex + 1 else pieceIndex, ptr2, numbersSeen + 1),
      inp, address, pieceIndex, ptr, numbersSeen)
    \<in> measure (\<lambda>(inp, address, pieceIndex, ptr, numbersSeen). length inp - ptr)"
    by simp
qed

declare ipv6Ipv4Loop.simps [simp del]

lemma ipv6ReadHex_pointer: "ipv6ReadHex inp ptr v len = (v', ptr', len') \<Longrightarrow> ptr \<le> ptr'"
proof (induction inp ptr v len rule: ipv6ReadHex.induct)
  case (1 inp ptr v len)
  show ?case
  proof (cases "len < 4 \<and> decodeHexDigitAt (atn inp ptr) \<ge> 0")
    case True
    with "1.prems" have "ipv6ReadHex inp (ptr + 1)
        (v * 16 + nat (decodeHexDigitAt (atn inp ptr))) (len + 1) = (v', ptr', len')"
      by (subst (asm) ipv6ReadHex.simps) simp
    from "1.IH"[OF True this] show ?thesis by simp
  next
    case False
    with "1.prems" show ?thesis by (subst (asm) ipv6ReadHex.simps) auto
  qed
qed

text \<open>The main \<open>while (pointer < input.length)\<close> loop of \<open>parseIPv6\<close>; the result is
  \<open>(address, compress, pieceIndex)\<close>, \<open>None\<close> is \<open>return null\<close>. A piece is written only
  after the test \<open>pieceIndex === 8\<close>.\<close>

function ipv6Loop ::
  "nat list \<Rightarrow> nat list \<Rightarrow> nat option \<Rightarrow> nat \<Rightarrow> nat \<Rightarrow> (nat list \<times> nat option \<times> nat) option" where
  "ipv6Loop inp address compress pieceIndex ptr =
     (if ptr < length inp then
        (if pieceIndex = 8 then None
         else if atn inp ptr = Some 58 then
           (if compress \<noteq> None then None
            else ipv6Loop inp address (Some (pieceIndex + 1)) (pieceIndex + 1) (ptr + 1))
         else
           (case ipv6ReadHex inp ptr 0 0 of
              (v, ptr1, len) \<Rightarrow>
                if atn inp ptr1 = Some 46 then
                  (if len = 0 then None
                   else if pieceIndex > 6 then None
                   else
                     (case ipv6Ipv4Loop inp address pieceIndex (ptr1 - len) 0 of
                        None \<Rightarrow> None
                      | Some (address', pieceIndex', numbersSeen) \<Rightarrow>
                          if numbersSeen \<noteq> 4 then None
                          else Some (address', compress, pieceIndex')))
                else if atn inp ptr1 = Some 58 then
                  (if atn inp (ptr1 + 1) = None then None
                   else ipv6Loop inp (address[pieceIndex := v]) compress (pieceIndex + 1) (ptr1 + 1))
                else if atn inp ptr1 \<noteq> None then None
                else ipv6Loop inp (address[pieceIndex := v]) compress (pieceIndex + 1) ptr1))
      else Some (address, compress, pieceIndex))"
  by pat_completeness auto
termination
  by (relation "measure (\<lambda>(inp, address, compress, pieceIndex, ptr). length inp - ptr)")
     (auto simp: atn_def split: if_splits dest: ipv6ReadHex_pointer[OF sym])

declare ipv6Loop.simps [simp del]

text \<open>The final loop that moves the pieces read after \<open>::\<close> to the end of the address.\<close>

function ipv6Swap :: "nat list \<Rightarrow> nat \<Rightarrow> nat \<Rightarrow> nat \<Rightarrow> nat list" where
  "ipv6Swap address compress swaps pieceIndex =
     (if pieceIndex \<noteq> 0 \<and> swaps > 0 then
        (let temp = address ! (compress + swaps - 1);
             address1 = address[compress + swaps - 1 := address ! pieceIndex];
             address2 = address1[pieceIndex := temp]
         in ipv6Swap address2 compress (swaps - 1) (pieceIndex - 1))
      else address)"
  by pat_completeness auto
termination
  by (relation "measure (\<lambda>(address, compress, swaps, pieceIndex). swaps)") auto

declare ipv6Swap.simps [simp del]

definition parseIPv6 :: "jsstring \<Rightarrow> nat list option" where
  "parseIPv6 string =
     (let address = [0, 0, 0, 0, 0, 0, 0, 0];
          inp = codePoints string;
          start =
            (if atn inp 0 = Some 58 then
               (if atn inp 1 \<noteq> Some 58 then None else Some (Some 1, 1, 2))
             else Some (None, 0, 0))
      in case start of
           None \<Rightarrow> None
         | Some (compress0, pieceIndex0, ptr0) \<Rightarrow>
             (case ipv6Loop inp address compress0 pieceIndex0 ptr0 of
                None \<Rightarrow> None
              | Some (address', None, pieceIndex) \<Rightarrow>
                  if pieceIndex \<noteq> 8 then None else Some address'
              | Some (address', Some compress, pieceIndex) \<Rightarrow>
                  Some (ipv6Swap address' compress (pieceIndex - compress) 7)))"

text \<open>\<open>findTheIPv6AddressCompressedPieceIndex\<close>: the loop over the pieces, on the rest of
  the array, with \<open>pieceIndex\<close>, \<open>longestIndex\<close>, \<open>foundIndex\<close>, \<open>longestSize\<close> and
  \<open>foundSize\<close>.\<close>

fun findCompressedLoop :: "nat list \<Rightarrow> int \<Rightarrow> int \<Rightarrow> int \<Rightarrow> nat \<Rightarrow> nat \<Rightarrow> int" where
  "findCompressedLoop [] pieceIndex longestIndex foundIndex longestSize foundSize =
     (if foundSize > longestSize then foundIndex else longestIndex)"
| "findCompressedLoop (a # rest) pieceIndex longestIndex foundIndex longestSize foundSize =
     (if a \<noteq> 0 then
        (if foundSize > longestSize
         then findCompressedLoop rest (pieceIndex + 1) foundIndex (-1) foundSize 0
         else findCompressedLoop rest (pieceIndex + 1) longestIndex (-1) longestSize 0)
      else findCompressedLoop rest (pieceIndex + 1) longestIndex
             (if foundIndex = -1 then pieceIndex else foundIndex) longestSize (foundSize + 1))"

definition findTheIPv6AddressCompressedPieceIndex :: "nat list \<Rightarrow> int" where
  "findTheIPv6AddressCompressedPieceIndex address = findCompressedLoop address 0 (-1) (-1) 1 0"

text \<open>The \<open>for (pieceIndex = 0; pieceIndex <= 7; ++pieceIndex)\<close> loop of \<open>serializeIPv6\<close>, on
  \<open>pieceIndex\<close>, \<open>ignore0\<close> and the output. An address has eight pieces.\<close>

function serializeIPv6Loop :: "nat list \<Rightarrow> int \<Rightarrow> nat \<Rightarrow> bool \<Rightarrow> jsstring \<Rightarrow> jsstring" where
  "serializeIPv6Loop address compress pieceIndex ignore0 output =
     (if pieceIndex \<le> 7 then
        (if ignore0 \<and> address ! pieceIndex = 0
         then serializeIPv6Loop address compress (pieceIndex + 1) ignore0 output
         else if compress = int pieceIndex
         then serializeIPv6Loop address compress (pieceIndex + 1) True
                (output @ (if pieceIndex = 0 then [58, 58] else [58]))
         else serializeIPv6Loop address compress (pieceIndex + 1) False
                (output @ toStringRadix 16 (address ! pieceIndex) @
                   (if pieceIndex \<noteq> 7 then [58] else [])))
      else output)"
  by pat_completeness auto
termination
  by (relation "measure (\<lambda>(address, compress, pieceIndex, ignore0, output). 8 - pieceIndex)") auto

declare serializeIPv6Loop.simps [simp del]

definition serializeIPv6 :: "nat list \<Rightarrow> jsstring" where
  "serializeIPv6 address =
     serializeIPv6Loop address (findTheIPv6AddressCompressedPieceIndex address) 0 False []"


section \<open>Hosts (url-state-machine.ts)\<close>

text \<open>\<open>String.prototype.normalize('NFC')\<close> and \<open>String.prototype.toLowerCase\<close> on a whole
  domain are the platform's Unicode tables, which are no part of the repository: the host
  parser takes them as parameters. \<open>asciiPlatform\<close> is what they are on every string of
  ASCII characters and of characters that are NFC-stable and have no lowercase mapping.\<close>

record platform =
  normalizeNFC :: "jsstring \<Rightarrow> jsstring"
  toLowerCase :: "jsstring \<Rightarrow> jsstring"

definition asciiPlatform :: platform where
  "asciiPlatform = \<lparr>normalizeNFC = (\<lambda>s. s), toLowerCase = map asciiLower\<rparr>"

definition normalizeDomain :: "platform \<Rightarrow> jsstring \<Rightarrow> jsstring option" where
  "normalizeDomain P domain =
     (let labels =
            toLowerCase P
              (map (\<lambda>c. if c \<in> {0x3002, 0xFF0E, 0xFF61, 0x2E} then 0x2E else c)
                 (normalizeNFC P domain))
      in if \<not> (\<exists>c\<in>set labels. c \<le> 0x20 \<or> c = 0x25) then Some labels else None)"

definition isSingleDot :: "jsstring \<Rightarrow> bool" where
  "isSingleDot b = (b = str ''.'' \<or> b = str ''%2e'' \<or> b = str ''%2E'')"

definition isDoubleDot :: "jsstring \<Rightarrow> bool" where
  "isDoubleDot b =
     (b = str ''..'' \<or> b = str ''%2e.'' \<or> b = str ''%2E.'' \<or> b = str ''.%2e'' \<or>
      b = str ''.%2E'' \<or> b = str ''%2e%2e'' \<or> b = str ''%2E%2e'' \<or> b = str ''%2e%2E'' \<or>
      b = str ''%2E%2E'')"

text \<open>\<open>isWindowsDriveLetterCodePoints\<close>; an argument may be \<open>undefined\<close>, and then every
  comparison is false.\<close>

definition isWindowsDriveLetterCodePoints :: "nat option \<Rightarrow> nat option \<Rightarrow> bool" where
  "isWindowsDriveLetterCodePoints cp1 cp2 =
     (case (cp1, cp2) of
        (Some a, Some b) \<Rightarrow>
          ((a \<ge> 0x41 \<and> a \<le> 0x5a) \<or> (a \<ge> 0x61 \<and> a \<le> 0x7a)) \<and> (b = 58 \<or> b = 124)
      | _ \<Rightarrow> False)"

definition isWindowsDriveLetterString :: "jsstring \<Rightarrow> bool" where
  "isWindowsDriveLetterString s =
     (length s = 2 \<and> isWindowsDriveLetterCodePoints (codePointAt s 0) (codePointAt s 1))"

definition isNormalizedWindowsDriveLetterString :: "jsstring \<Rightarrow> bool" where
  "isNormalizedWindowsDriveLetterString s =
     (if length s = 2 then
        (case (codePointAt s 0, codePointAt s 1) of
           (Some a, Some b) \<Rightarrow>
             ((a \<ge> 0x41 \<and> a \<le> 0x5a) \<or> (a \<ge> 0x61 \<and> a \<le> 0x7a)) \<and> b = 58
         | _ \<Rightarrow> False)
      else False)"

text \<open>\<open>isNormalizedWindowsDriveLetter\<close>: the regular expression \<open>^[A-Za-z]:$\<close>.\<close>

definition isNormalizedWindowsDriveLetter :: "jsstring \<Rightarrow> bool" where
  "isNormalizedWindowsDriveLetter s =
     (case s of
        [a, b] \<Rightarrow> ((a \<ge> 0x41 \<and> a \<le> 0x5a) \<or> (a \<ge> 0x61 \<and> a \<le> 0x7a)) \<and> b = 58
      | _ \<Rightarrow> False)"

definition containsForbiddenHostCodePoint :: "jsstring \<Rightarrow> bool" where
  "containsForbiddenHostCodePoint s =
     (\<exists>c\<in>set s. c \<in> {0x00, 0x09, 0x0A, 0x0D, 0x20, 0x23, 0x2F, 0x3A, 0x3C, 0x3E, 0x3F,
                         0x40, 0x5B, 0x5C, 0x5D, 0x5E, 0x7C})"

definition isSpecial :: "jsstring \<Rightarrow> bool" where
  "isSpecial s =
     (s = str ''ftp'' \<or> s = str ''http'' \<or> s = str ''https'' \<or> s = str ''ws'' \<or>
      s = str ''wss'' \<or> s = str ''file'')"

definition defaultPort :: "jsstring \<Rightarrow> nat option" where
  "defaultPort s =
     (if s = str ''ftp'' then Some 21
      else if s = str ''http'' then Some 80
      else if s = str ''https'' then Some 443
      else if s = str ''ws'' then Some 80
      else if s = str ''wss'' then Some 443
      else None)"

text \<open>What \<open>parseHost\<close> returns before \<open>serializeHost\<close>: a number, an array or a string.\<close>

datatype hostValue = HostIPv4 int | HostIPv6 "nat list" | HostString jsstring

definition parseOpaqueHost :: "jsstring \<Rightarrow> jsstring option" where
  "parseOpaqueHost s =
     (if \<not> containsForbiddenHostCodePoint s
      then Some (utf8PercentEncodeString s isC0ControlPercentEncode False) else None)"

definition parseHost :: "platform \<Rightarrow> jsstring \<Rightarrow> bool \<Rightarrow> jserror + hostValue option" where
  "parseHost P s isOpaque =
     (if atn s 0 = Some 0x5B then
        (if atn s (length s - 1) = Some 0x5D
         then Inr (map_option HostIPv6 (parseIPv6 (slice s 1 (length s - 1))))
         else Inr None)
      else if isOpaque then Inr (map_option HostString (parseOpaqueHost s))
      else
        (let domain = utf8Decode (percentDecodeString s)
         in if isIPv4 domain then
              (case parseIPv4 domain of
                 Inl e \<Rightarrow> Inl e
               | Inr r \<Rightarrow> Inr (map_option HostIPv4 r))
            else if containsForbiddenHostCodePoint domain then Inr None
            else Inr (map_option HostString (normalizeDomain P domain))))"

definition serializeHost :: "hostValue \<Rightarrow> jsstring" where
  "serializeHost h =
     (case h of
        HostIPv4 n \<Rightarrow> serializeIPv4 n
      | HostIPv6 a \<Rightarrow> [0x5B] @ serializeIPv6 a @ [0x5D]
      | HostString s \<Rightarrow> s)"

text \<open>\<open>trimControlChars\<close> and \<open>trimTabAndNewline\<close>.\<close>

definition trimControlChars :: "jsstring \<Rightarrow> jsstring" where
  "trimControlChars s =
     rev (dropWhile (\<lambda>c. \<not> c > 0x20) (rev (dropWhile (\<lambda>c. \<not> c > 0x20) s)))"

definition trimTabAndNewline :: "jsstring \<Rightarrow> jsstring" where
  "trimTabAndNewline s = filter (\<lambda>c. c \<notin> {0x09, 0x0A, 0x0D}) s"

definition shortenPath :: "URLAbstract \<Rightarrow> URLAbstract" where
  "shortenPath u =
     (if length (path u) > 0 \<and>
         (length (path u) \<noteq> 1 \<or> scheme u \<noteq> str ''file'' \<or>
          \<not> isNormalizedWindowsDriveLetter (path u ! 0))
      then u\<lparr>path := butlast (path u)\<rparr> else u)"

definition includesCredentials :: "URLAbstract \<Rightarrow> bool" where
  "includesCredentials u = (username u \<noteq> [] \<or> password u \<noteq> [])"

definition cannotHaveAUsernamePasswordPort :: "URLAbstract \<Rightarrow> bool" where
  "cannotHaveAUsernamePasswordPort u =
     (host u = None \<or> host u = Some [] \<or> scheme u = str ''file'')"

section \<open>The parser state machine (url-state-machine.ts)\<close>

datatype URLParseMode =
    Success | Failure | SchemeStart | Scheme | NoScheme | SpecialRelativeOrAuthority
  | PathOrAuthority | Relative | RelativeSlash | SpecialAuthoritySlashes
  | SpecialAuthorityIgnoreSlashes | Authority | Host | Hostname | Port | File | FileSlash
  | FileHost | PathStart | Path | OpaquePath | Query | Fragment

text \<open>\<open>interface URLParseState\<close>. \<open>initialMode\<close> is \<open>Success\<close> (the enum's 0, which is
  falsy) when the caller gave no start mode, as in \<open>initialMode || URLParseMode.Success\<close>.\<close>

record URLParseState =
  pointer :: int
  input :: "nat list"
  buffer :: jsstring
  base :: "URLAbstract option"
  url :: URLAbstract
  failure :: bool
  atSignSeen :: bool
  passwordTokenSeen :: bool
  insideBrackets :: bool
  initialMode :: URLParseMode

type_synonym parserResult = "URLParseMode \<times> URLParseState"

definition isAsciiAlphaCp :: "nat option \<Rightarrow> bool" where
  "isAsciiAlphaCp c =
     (case c of None \<Rightarrow> False
      | Some cp \<Rightarrow> (cp \<ge> 0x41 \<and> cp \<le> 0x5a) \<or> (cp \<ge> 0x61 \<and> cp \<le> 0x7a))"

definition isAsciiDigitCp :: "nat option \<Rightarrow> bool" where
  "isAsciiDigitCp c = (case c of None \<Rightarrow> False | Some cp \<Rightarrow> cp \<ge> 0x30 \<and> cp \<le> 0x39)"

definition parseSchemeStart :: "URLParseState \<Rightarrow> nat option \<Rightarrow> jsstring \<Rightarrow> parserResult" where
  "parseSchemeStart st c cStr =
     (if isAsciiAlphaCp c then (Scheme, st\<lparr>buffer := buffer st @ map asciiLower cStr\<rparr>)
      else if initialMode st = Success then (NoScheme, st\<lparr>pointer := pointer st - 1\<rparr>)
      else (Failure, st))"

definition parseScheme :: "URLParseState \<Rightarrow> nat option \<Rightarrow> jsstring \<Rightarrow> parserResult" where
  "parseScheme st c cStr =
     (if c = Some 43 \<or> c = Some 45 \<or> c = Some 46 \<or> isAsciiAlphaCp c \<or> isAsciiDigitCp c
      then (Scheme, st\<lparr>buffer := buffer st @ map asciiLower cStr\<rparr>)
      else if c = Some 58 then
        (if initialMode st \<noteq> Success \<and>
            isSpecial (scheme (url st)) \<noteq> isSpecial (buffer st)
         then (Success, st)
         else if initialMode st \<noteq> Success \<and>
            (includesCredentials (url st) \<or> port (url st) \<noteq> None) \<and>
            buffer st = str ''file''
         then (Success, st)
         else if initialMode st \<noteq> Success \<and>
            scheme (url st) = str ''file'' \<and> host (url st) = Some []
         then (Success, st)
         else
           (let st1 = st\<lparr>url := (url st)\<lparr>scheme := buffer st\<rparr>\<rparr>
            in if initialMode st1 \<noteq> Success then
                 (Success,
                  if port (url st1) = defaultPort (scheme (url st1))
                  then st1\<lparr>url := (url st1)\<lparr>port := None\<rparr>\<rparr> else st1)
               else
                 (let st2 = st1\<lparr>buffer := []\<rparr>
                  in if scheme (url st2) = str ''file'' then (File, st2)
                     else if isSpecial (scheme (url st2)) \<and>
                        (case base st2 of None \<Rightarrow> False
                         | Some b \<Rightarrow> scheme b = scheme (url st2))
                     then (SpecialRelativeOrAuthority, st2)
                     else if isSpecial (scheme (url st2)) then (SpecialAuthoritySlashes, st2)
                     else if at (input st2) (pointer st2 + 1) = Some 47
                     then (PathOrAuthority, st2\<lparr>pointer := pointer st2 + 1\<rparr>)
                     else (OpaquePath,
                           st2\<lparr>url := (url st2)\<lparr>path := [[]], opaquePath := True\<rparr>\<rparr>))))
      else if initialMode st = Success
      then (NoScheme, st\<lparr>buffer := [], pointer := -1\<rparr>)
      else (Failure, st))"

definition parseNoScheme :: "URLParseState \<Rightarrow> nat option \<Rightarrow> jsstring \<Rightarrow> parserResult" where
  "parseNoScheme st c cStr =
     (case base st of
        None \<Rightarrow> (Failure, st)
      | Some b \<Rightarrow>
          if opaquePath b \<and> c \<noteq> Some 35 then (Failure, st)
          else if opaquePath b \<and> c = Some 35 then
            (Fragment,
             st\<lparr>url := (url st)\<lparr>scheme := scheme b, path := path b,
                    opaquePath := opaquePath b, query := query b, fragment := Some []\<rparr>\<rparr>)
          else if scheme b = str ''file'' then (File, st\<lparr>pointer := pointer st - 1\<rparr>)
          else (Relative, st\<lparr>pointer := pointer st - 1\<rparr>))"

definition parseSpecialRelativeOrAuthority ::
  "URLParseState \<Rightarrow> nat option \<Rightarrow> jsstring \<Rightarrow> parserResult" where
  "parseSpecialRelativeOrAuthority st c cStr =
     (if c = Some 47 \<and> at (input st) (pointer st + 1) = Some 47
      then (SpecialAuthorityIgnoreSlashes, st\<lparr>pointer := pointer st + 1\<rparr>)
      else (Relative, st\<lparr>pointer := pointer st - 1\<rparr>))"

definition parsePathOrAuthority :: "URLParseState \<Rightarrow> nat option \<Rightarrow> jsstring \<Rightarrow> parserResult" where
  "parsePathOrAuthority st c cStr =
     (if c = Some 47 then (Authority, st) else (Path, st\<lparr>pointer := pointer st - 1\<rparr>))"

text \<open>\<open>parseRelative\<close> and \<open>parseRelativeSlash\<close> read \<open>state.base!.scheme\<close>: a TypeError
  when the base is \<open>null\<close>.\<close>

definition parseRelative ::
  "URLParseState \<Rightarrow> nat option \<Rightarrow> jsstring \<Rightarrow> jserror + parserResult" where
  "parseRelative st c cStr =
     (case base st of
        None \<Rightarrow> Inl TypeError
      | Some b \<Rightarrow>
          (let st1 = st\<lparr>url := (url st)\<lparr>scheme := scheme b\<rparr>\<rparr>
           in if c = Some 47 then Inr (RelativeSlash, st1)
              else if isSpecial (scheme (url st1)) \<and> c = Some 92 then Inr (RelativeSlash, st1)
              else
                (let st2 = st1\<lparr>url := (url st1)\<lparr>username := username b,
                              password := password b, host := host b, port := port b,
                              path := path b, query := query b\<rparr>\<rparr>
                 in if c = Some 63
                    then Inr (Query, st2\<lparr>url := (url st2)\<lparr>query := Some []\<rparr>\<rparr>)
                    else if c = Some 35
                    then Inr (Fragment, st2\<lparr>url := (url st2)\<lparr>fragment := Some []\<rparr>\<rparr>)
                    else if c \<noteq> None
                    then Inr (Path,
                           st2\<lparr>url := (url st2)\<lparr>query := None,
                                  path := butlast (path (url st2))\<rparr>,
                               pointer := pointer st2 - 1\<rparr>)
                    else Inr (Relative, st2))))"

definition parseRelativeSlash ::
  "URLParseState \<Rightarrow> nat option \<Rightarrow> jsstring \<Rightarrow> jserror + parserResult" where
  "parseRelativeSlash st c cStr =
     (if isSpecial (scheme (url st)) \<and> (c = Some 47 \<or> c = Some 92)
      then Inr (SpecialAuthorityIgnoreSlashes, st)
      else if c = Some 47 then Inr (Authority, st)
      else
        (case base st of
           None \<Rightarrow> Inl TypeError
         | Some b \<Rightarrow>
             Inr (Path,
                  st\<lparr>url := (url st)\<lparr>username := username b, password := password b,
                         host := host b, port := port b\<rparr>,
                     pointer := pointer st - 1\<rparr>)))"

definition parseSpecialAuthoritySlashes ::
  "URLParseState \<Rightarrow> nat option \<Rightarrow> jsstring \<Rightarrow> parserResult" where
  "parseSpecialAuthoritySlashes st c cStr =
     (if c = Some 47 \<and> at (input st) (pointer st + 1) = Some 47
      then (SpecialAuthorityIgnoreSlashes, st\<lparr>pointer := pointer st + 1\<rparr>)
      else (SpecialAuthorityIgnoreSlashes, st\<lparr>pointer := pointer st - 1\<rparr>))"

definition parseSpecialAuthorityIgnoreSlashes ::
  "URLParseState \<Rightarrow> nat option \<Rightarrow> jsstring \<Rightarrow> parserResult" where
  "parseSpecialAuthorityIgnoreSlashes st c cStr =
     (if c \<noteq> Some 47 \<and> c \<noteq> Some 92 then (Authority, st\<lparr>pointer := pointer st - 1\<rparr>)
      else (SpecialAuthorityIgnoreSlashes, st))"

text \<open>One round of the \<open>for\<close> loop of \<open>parseAuthority\<close>: \<open>idx\<close> runs over the number of
  code points of the buffer, and \<open>state.buffer.codePointAt(idx)\<close> reads at the code unit
  \<open>idx\<close>.\<close>

definition authorityStep :: "nat \<Rightarrow> URLParseState \<Rightarrow> URLParseState" where
  "authorityStep idx st =
     (let codePoint = codePointAt (buffer st) idx
      in if codePoint = Some 58 \<and> \<not> passwordTokenSeen st then st\<lparr>passwordTokenSeen := True\<rparr>
         else
           (let encodedCodePoints = utf8PercentEncodeCodePoint codePoint isUserinfoPercentEncode
            in if passwordTokenSeen st
               then st\<lparr>url := (url st)\<lparr>password := password (url st) @ encodedCodePoints\<rparr>\<rparr>
               else st\<lparr>url := (url st)\<lparr>username := username (url st) @ encodedCodePoints\<rparr>\<rparr>))"

definition isAuthorityEnd :: "URLParseState \<Rightarrow> nat option \<Rightarrow> bool" where
  "isAuthorityEnd st c =
     (c = None \<or> c = Some 35 \<or> c = Some 47 \<or> c = Some 63 \<or>
      (c = Some 92 \<and> isSpecial (scheme (url st))))"

definition parseAuthority :: "URLParseState \<Rightarrow> nat option \<Rightarrow> jsstring \<Rightarrow> parserResult" where
  "parseAuthority st c cStr =
     (if c = Some 64 then
        (let st1 = (if atSignSeen st then st\<lparr>buffer := str ''%40'' @ buffer st\<rparr> else st);
             st2 = st1\<lparr>atSignSeen := True\<rparr>;
             bufferCodePoints = codePoints (buffer st2);
             st3 = fold authorityStep [0 ..< length bufferCodePoints] st2
         in (Authority, st3\<lparr>buffer := []\<rparr>))
      else if isAuthorityEnd st c then
        (if atSignSeen st \<and> buffer st = [] then (Failure, st)
         else (Hostname,
               st\<lparr>pointer := pointer st - (int (length (codePoints (buffer st))) + 1),
                  buffer := []\<rparr>))
      else (Authority, st\<lparr>buffer := buffer st @ cStr\<rparr>))"

text \<open>\<open>parseHostname\<close> serves the modes \<open>Host\<close> and \<open>Hostname\<close>.\<close>

definition parseHostname ::
  "platform \<Rightarrow> URLParseState \<Rightarrow> nat option \<Rightarrow> jsstring \<Rightarrow> jserror + parserResult" where
  "parseHostname P st c cStr =
     (if initialMode st \<noteq> Success \<and> scheme (url st) = str ''file''
      then Inr (FileHost, st\<lparr>pointer := pointer st - 1\<rparr>)
      else if c = Some 58 \<and> \<not> insideBrackets st then
        (if buffer st = [] then Inr (Failure, st)
         else if initialMode st = Hostname then Inr (Failure, st)
         else
           (case parseHost P (buffer st) (\<not> isSpecial (scheme (url st))) of
              Inl e \<Rightarrow> Inl e
            | Inr None \<Rightarrow> Inr (Failure, st)
            | Inr (Some h) \<Rightarrow>
                Inr (Port, st\<lparr>url := (url st)\<lparr>host := Some (serializeHost h)\<rparr>, buffer := []\<rparr>)))
      else if isAuthorityEnd st c then
        (let st1 = st\<lparr>pointer := pointer st - 1\<rparr>
         in if isSpecial (scheme (url st1)) \<and> buffer st1 = [] then Inr (Failure, st1)
            else if initialMode st1 \<noteq> Success \<and> buffer st1 = [] \<and>
               (includesCredentials (url st1) \<or> port (url st1) \<noteq> None)
            then Inr (Failure, st1)
            else
              (case parseHost P (buffer st1) (\<not> isSpecial (scheme (url st1))) of
                 Inl e \<Rightarrow> Inl e
               | Inr None \<Rightarrow> Inr (Failure, st1)
               | Inr (Some h) \<Rightarrow>
                   Inr (if initialMode st1 \<noteq> Success then Success else PathStart,
                        st1\<lparr>url := (url st1)\<lparr>host := Some (serializeHost h)\<rparr>,
                            buffer := []\<rparr>)))
      else
        Inr (Hostname,
             st\<lparr>insideBrackets :=
                  (if c = Some 91 then True else if c = Some 93 then False
                   else insideBrackets st),
                buffer := buffer st @ cStr\<rparr>))"

text \<open>\<open>parseInt(state.buffer, 10)\<close> on the buffer of the Port state, which holds decimal
  digits only: the buffer is empty on entry and the state appends digits only. The result
  is compared with \<open>2 ** 16 - 1\<close>, which rounding to a double does not change.\<close>

definition parseInt10 :: "jsstring \<Rightarrow> nat" where
  "parseInt10 s = foldl (\<lambda>acc d. acc * 10 + (d - 0x30)) 0 s"

definition parsePort :: "URLParseState \<Rightarrow> nat option \<Rightarrow> jsstring \<Rightarrow> parserResult" where
  "parsePort st c cStr =
     (if isAsciiDigitCp c then (Port, st\<lparr>buffer := buffer st @ cStr\<rparr>)
      else if initialMode st \<noteq> Success \<or> isAuthorityEnd st c then
        (if buffer st \<noteq> [] then
           (let p = parseInt10 (buffer st)
            in if p > 2 ^ 16 - 1 then (Failure, st)
               else
                 (let st1 = st\<lparr>url := (url st)\<lparr>port :=
                                (if Some p = defaultPort (scheme (url st)) then None
                                 else Some p)\<rparr>,
                              buffer := []\<rparr>
                  in if initialMode st1 \<noteq> Success then (Success, st1)
                     else (PathStart, st1\<lparr>pointer := pointer st1 - 1\<rparr>)))
         else if initialMode st \<noteq> Success then (Failure, st)
         else (PathStart, st\<lparr>pointer := pointer st - 1\<rparr>))
      else (Failure, st))"

definition startsWithWindowsDriveLetter :: "nat list \<Rightarrow> int \<Rightarrow> bool" where
  "startsWithWindowsDriveLetter inp ptr =
     (let len = int (length inp) - ptr
      in if len < 2 then False
         else if \<not> isWindowsDriveLetterCodePoints (at inp ptr) (at inp (ptr + 1)) then False
         else if len = 2 then True
         else (let c2 = at inp (ptr + 2)
               in c2 = Some 47 \<or> c2 = Some 92 \<or> c2 = Some 63 \<or> c2 = Some 35))"

definition parseFile :: "URLParseState \<Rightarrow> nat option \<Rightarrow> jsstring \<Rightarrow> parserResult" where
  "parseFile st c cStr =
     (let st1 = st\<lparr>url := (url st)\<lparr>scheme := str ''file'', host := Some []\<rparr>\<rparr>
      in if c = Some 47 \<or> c = Some 92 then (FileSlash, st1)
         else
           (case (case base st1 of None \<Rightarrow> None
                  | Some b \<Rightarrow> if scheme b = str ''file'' then Some b else None) of
              Some b \<Rightarrow>
                (let st2 = st1\<lparr>url := (url st1)\<lparr>host := host b, path := path b,
                              opaquePath := opaquePath b, query := query b\<rparr>\<rparr>
                 in if c = Some 63
                    then (Query, st2\<lparr>url := (url st2)\<lparr>query := Some []\<rparr>\<rparr>)
                    else if c = Some 35
                    then (Fragment, st2\<lparr>url := (url st2)\<lparr>fragment := Some []\<rparr>\<rparr>)
                    else if c \<noteq> None then
                      (let st3 = st2\<lparr>url := (url st2)\<lparr>query := None\<rparr>\<rparr>;
                           st4 =
                             (if \<not> startsWithWindowsDriveLetter (input st3) (pointer st3)
                              then st3\<lparr>url := shortenPath (url st3)\<rparr>
                              else st3\<lparr>url := (url st3)\<lparr>path := []\<rparr>\<rparr>)
                       in (Path, st4\<lparr>pointer := pointer st4 - 1\<rparr>))
                    else (File, st2))
            | None \<Rightarrow> (Path, st1\<lparr>pointer := pointer st1 - 1\<rparr>)))"

text \<open>\<open>parseFileSlash\<close>: \<open>state.base.path[0]\<close> is \<open>undefined\<close> when the base has no path
  segment, and \<open>isNormalizedWindowsDriveLetterString\<close> then reads \<open>undefined.length\<close>.\<close>

definition parseFileSlash ::
  "URLParseState \<Rightarrow> nat option \<Rightarrow> jsstring \<Rightarrow> jserror + parserResult" where
  "parseFileSlash st c cStr =
     (if c = Some 47 \<or> c = Some 92 then Inr (FileHost, st)
      else
        (case (case base st of None \<Rightarrow> None
               | Some b \<Rightarrow> if scheme b = str ''file'' then Some b else None) of
           Some b \<Rightarrow>
             (if \<not> startsWithWindowsDriveLetter (input st) (pointer st) then
                (case path b of
                   [] \<Rightarrow> Inl TypeError
                 | seg # _ \<Rightarrow>
                     (let st1 =
                            (if isNormalizedWindowsDriveLetterString seg
                             then st\<lparr>url := (url st)\<lparr>path := path (url st) @ [seg]\<rparr>\<rparr>
                             else st)
                      in Inr (Path, st1\<lparr>url := (url st1)\<lparr>host := host b\<rparr>,
                                      pointer := pointer st1 - 1\<rparr>)))
              else Inr (Path, st\<lparr>url := (url st)\<lparr>host := host b\<rparr>,
                              pointer := pointer st - 1\<rparr>))
         | None \<Rightarrow> Inr (Path, st\<lparr>pointer := pointer st - 1\<rparr>)))"

definition parseFileHost ::
  "platform \<Rightarrow> URLParseState \<Rightarrow> nat option \<Rightarrow> jsstring \<Rightarrow> jserror + parserResult" where
  "parseFileHost P st c cStr =
     (if c = None \<or> c = Some 47 \<or> c = Some 92 \<or> c = Some 63 \<or> c = Some 35 then
        (let st1 = st\<lparr>pointer := pointer st - 1\<rparr>
         in if initialMode st1 = Success \<and> isWindowsDriveLetterString (buffer st1)
            then Inr (Path, st1)
            else if buffer st1 = [] then
              Inr (if initialMode st1 \<noteq> Success then Success else PathStart,
                   st1\<lparr>url := (url st1)\<lparr>host := Some []\<rparr>\<rparr>)
            else
              (case parseHost P (buffer st1) (\<not> isSpecial (scheme (url st1))) of
                 Inl e \<Rightarrow> Inl e
               | Inr None \<Rightarrow> Inr (Failure, st1)
               | Inr (Some h) \<Rightarrow>
                   (let h' = (if h = HostString (str ''localhost'') then HostString [] else h)
                    in Inr (if initialMode st1 \<noteq> Success then Success else PathStart,
                            st1\<lparr>url := (url st1)\<lparr>host := Some (serializeHost h')\<rparr>,
                                buffer := []\<rparr>))))
      else Inr (FileHost, st\<lparr>buffer := buffer st @ cStr\<rparr>))"

definition parsePathStart :: "URLParseState \<Rightarrow> nat option \<Rightarrow> jsstring \<Rightarrow> parserResult" where
  "parsePathStart st c cStr =
     (if isSpecial (scheme (url st)) then
        (Path, if c \<noteq> Some 92 \<and> c \<noteq> Some 47 then st\<lparr>pointer := pointer st - 1\<rparr> else st)
      else if initialMode st = Success \<and> c = Some 63
      then (Query, st\<lparr>url := (url st)\<lparr>query := Some []\<rparr>\<rparr>)
      else if initialMode st = Success \<and> c = Some 35
      then (Fragment, st\<lparr>url := (url st)\<lparr>fragment := Some []\<rparr>\<rparr>)
      else if c \<noteq> None
      then (Path, if c \<noteq> Some 47 then st\<lparr>pointer := pointer st - 1\<rparr> else st)
      else if initialMode st \<noteq> Success \<and> host (url st) = None
      then (PathStart, st\<lparr>url := (url st)\<lparr>path := path (url st) @ [[]]\<rparr>\<rparr>)
      else (PathStart, st))"

definition parsePath :: "URLParseState \<Rightarrow> nat option \<Rightarrow> jsstring \<Rightarrow> parserResult" where
  "parsePath st c cStr =
     (if c = None \<or> c = Some 47 \<or> (isSpecial (scheme (url st)) \<and> c = Some 92) \<or>
         (initialMode st = Success \<and> (c = Some 63 \<or> c = Some 35))
      then
        (let hasInvalidEscape = (isSpecial (scheme (url st)) \<and> c = Some 92);
             st1 =
               (if isDoubleDot (buffer st) then
                  (let st' = st\<lparr>url := shortenPath (url st)\<rparr>
                   in if c \<noteq> Some 47 \<and> \<not> hasInvalidEscape
                      then st'\<lparr>url := (url st')\<lparr>path := path (url st') @ [[]]\<rparr>\<rparr>
                      else st')
                else if isSingleDot (buffer st) \<and> c \<noteq> Some 47 \<and> \<not> hasInvalidEscape
                then st\<lparr>url := (url st)\<lparr>path := path (url st) @ [[]]\<rparr>\<rparr>
                else if \<not> isSingleDot (buffer st) then
                  (let st' =
                         (if scheme (url st) = str ''file'' \<and> length (path (url st)) = 0 \<and>
                             isWindowsDriveLetterString (buffer st)
                          then st\<lparr>buffer := [buffer st ! 0, 58]\<rparr> else st)
                   in st'\<lparr>url := (url st')\<lparr>path := path (url st') @ [buffer st']\<rparr>\<rparr>)
                else st);
             st2 = st1\<lparr>buffer := []\<rparr>
         in if c = Some 63 then (Query, st2\<lparr>url := (url st2)\<lparr>query := Some []\<rparr>\<rparr>)
            else if c = Some 35
            then (Fragment, st2\<lparr>url := (url st2)\<lparr>fragment := Some []\<rparr>\<rparr>)
            else (Path, st2))
      else
        (Path, st\<lparr>buffer := buffer st @ utf8PercentEncodeCodePoint c isPathPercentEncode\<rparr>))"

text \<open>\<open>state.url.path[0] += s\<close>: on an empty array \<open>path[0]\<close> is \<open>undefined\<close>, and the
  sum is the string \<open>undefined\<close> followed by \<open>s\<close>. \<open>query += s\<close> and \<open>fragment += s\<close>
  on \<open>null\<close> likewise give \<open>null\<close> followed by \<open>s\<close>.\<close>

definition appendToFirstSegment :: "jsstring list \<Rightarrow> jsstring \<Rightarrow> jsstring list" where
  "appendToFirstSegment segs s =
     (case segs of [] \<Rightarrow> [str ''undefined'' @ s] | seg # rest \<Rightarrow> (seg @ s) # rest)"

definition appendToNullable :: "jsstring option \<Rightarrow> jsstring \<Rightarrow> jsstring option" where
  "appendToNullable q s = (case q of None \<Rightarrow> Some (str ''null'' @ s) | Some t \<Rightarrow> Some (t @ s))"

definition parseOpaquePath :: "URLParseState \<Rightarrow> nat option \<Rightarrow> jsstring \<Rightarrow> parserResult" where
  "parseOpaquePath st c cStr =
     (if c = Some 63 then (Query, st\<lparr>url := (url st)\<lparr>query := Some []\<rparr>\<rparr>)
      else if c = Some 35 then (Fragment, st\<lparr>url := (url st)\<lparr>fragment := Some []\<rparr>\<rparr>)
      else if c = Some 32 then
        (let remaining = at (input st) (pointer st + 1)
         in (OpaquePath,
             st\<lparr>url := (url st)\<lparr>path := appendToFirstSegment (path (url st))
                    (if remaining = Some 63 \<or> remaining = Some 35 then str ''%20''
                     else str '' '')\<rparr>\<rparr>))
      else if c \<noteq> None then
        (OpaquePath,
         st\<lparr>url := (url st)\<lparr>path := appendToFirstSegment (path (url st))
                (utf8PercentEncodeCodePoint c isC0ControlPercentEncode)\<rparr>\<rparr>)
      else (OpaquePath, st))"

definition parseQuery :: "URLParseState \<Rightarrow> nat option \<Rightarrow> jsstring \<Rightarrow> parserResult" where
  "parseQuery st c cStr =
     (if c = None \<or> (initialMode st = Success \<and> c = Some 35) then
        (let queryPercentEncodePredicate =
               (if isSpecial (scheme (url st)) then isSpecialQueryPercentEncode
                else isQueryPercentEncode);
             st1 = st\<lparr>url := (url st)\<lparr>query := appendToNullable (query (url st))
                          (utf8PercentEncodeString (buffer st) queryPercentEncodePredicate False)\<rparr>,
                      buffer := []\<rparr>
         in if c = Some 35 then (Fragment, st1\<lparr>url := (url st1)\<lparr>fragment := Some []\<rparr>\<rparr>)
            else (Query, st1))
      else (Query, st\<lparr>buffer := buffer st @ cStr\<rparr>))"

definition parseFragment :: "URLParseState \<Rightarrow> nat option \<Rightarrow> jsstring \<Rightarrow> parserResult" where
  "parseFragment st c cStr =
     (if c \<noteq> None then
        (Fragment,
         st\<lparr>url := (url st)\<lparr>fragment := appendToNullable (fragment (url st))
                (utf8PercentEncodeCodePoint c isFragmentPercentEncode)\<rparr>\<rparr>)
      else (Fragment, st))"

text \<open>\<open>next\<close>: the dispatch on the mode.\<close>

definition "next" ::
  "platform \<Rightarrow> URLParseMode \<Rightarrow> URLParseState \<Rightarrow> nat option \<Rightarrow> jsstring \<Rightarrow> jserror + parserResult" where
  "next P mode st c cStr =
     (case mode of
        Failure \<Rightarrow> Inr (mode, st)
      | Success \<Rightarrow> Inr (mode, st)
      | SchemeStart \<Rightarrow> Inr (parseSchemeStart st c cStr)
      | Scheme \<Rightarrow> Inr (parseScheme st c cStr)
      | NoScheme \<Rightarrow> Inr (parseNoScheme st c cStr)
      | SpecialRelativeOrAuthority \<Rightarrow> Inr (parseSpecialRelativeOrAuthority st c cStr)
      | PathOrAuthority \<Rightarrow> Inr (parsePathOrAuthority st c cStr)
      | Relative \<Rightarrow> parseRelative st c cStr
      | RelativeSlash \<Rightarrow> parseRelativeSlash st c cStr
      | SpecialAuthoritySlashes \<Rightarrow> Inr (parseSpecialAuthoritySlashes st c cStr)
      | SpecialAuthorityIgnoreSlashes \<Rightarrow> Inr (parseSpecialAuthorityIgnoreSlashes st c cStr)
      | Authority \<Rightarrow> Inr (parseAuthority st c cStr)
      | Host \<Rightarrow> parseHostname P st c cStr
      | Hostname \<Rightarrow> parseHostname P st c cStr
      | Port \<Rightarrow> Inr (parsePort st c cStr)
      | File \<Rightarrow> Inr (parseFile st c cStr)
      | FileSlash \<Rightarrow> parseFileSlash st c cStr
      | FileHost \<Rightarrow> parseFileHost P st c cStr
      | PathStart \<Rightarrow> Inr (parsePathStart st c cStr)
      | Path \<Rightarrow> Inr (parsePath st c cStr)
      | OpaquePath \<Rightarrow> Inr (parseOpaquePath st c cStr)
      | Query \<Rightarrow> Inr (parseQuery st c cStr)
      | Fragment \<Rightarrow> Inr (parseFragment st c cStr))"

subsection \<open>The driver loop and its termination\<close>

text \<open>The modes in the order of the enum. Every state of the parser either moves to a mode
  later in this order or stays in its mode and leaves the pointer alone, which the loop then
  advances: that is why the loop of \<open>parseURLRaw\<close> ends.\<close>

fun modeRank :: "URLParseMode \<Rightarrow> nat" where
  "modeRank Success = 0" | "modeRank Failure = 1" | "modeRank SchemeStart = 2"
| "modeRank Scheme = 3" | "modeRank NoScheme = 4" | "modeRank SpecialRelativeOrAuthority = 5"
| "modeRank PathOrAuthority = 6" | "modeRank Relative = 7" | "modeRank RelativeSlash = 8"
| "modeRank SpecialAuthoritySlashes = 9" | "modeRank SpecialAuthorityIgnoreSlashes = 10"
| "modeRank Authority = 11" | "modeRank Host = 12" | "modeRank Hostname = 13"
| "modeRank Port = 14" | "modeRank File = 15" | "modeRank FileSlash = 16"
| "modeRank FileHost = 17" | "modeRank PathStart = 18" | "modeRank Path = 19"
| "modeRank OpaquePath = 20" | "modeRank Query = 21" | "modeRank Fragment = 22"

definition progress :: "URLParseMode \<Rightarrow> URLParseState \<Rightarrow> parserResult \<Rightarrow> bool" where
  "progress mode st r =
     (input (snd r) = input st \<and>
      (fst r = Success \<or> fst r = Failure \<or> modeRank mode < modeRank (fst r) \<or>
       (fst r = mode \<and> pointer (snd r) = pointer st)))"

lemma input_fold_authorityStep: "input (fold authorityStep xs st) = input st"
  by (induction xs arbitrary: st) (auto simp: authorityStep_def Let_def)

lemma pointer_fold_authorityStep: "pointer (fold authorityStep xs st) = pointer st"
  by (induction xs arbitrary: st) (auto simp: authorityStep_def Let_def)


lemma progress_parseSchemeStart: "progress SchemeStart st (parseSchemeStart st c s)"
  by (simp add: progress_def parseSchemeStart_def)

lemma progress_parseScheme: "progress Scheme st (parseScheme st c s)"
  by (simp add: progress_def parseScheme_def Let_def)

lemma progress_parseNoScheme: "progress NoScheme st (parseNoScheme st c s)"
  by (simp add: progress_def parseNoScheme_def split: option.splits)

lemma progress_parseSpecialRelativeOrAuthority: "progress SpecialRelativeOrAuthority st (parseSpecialRelativeOrAuthority st c s)"
  by (simp add: progress_def parseSpecialRelativeOrAuthority_def)

lemma progress_parsePathOrAuthority: "progress PathOrAuthority st (parsePathOrAuthority st c s)"
  by (simp add: progress_def parsePathOrAuthority_def)

lemma progress_parseRelative: "parseRelative st c s = Inr r \<Longrightarrow> progress Relative st r"
  by (auto simp: progress_def parseRelative_def Let_def split: option.splits if_splits)

lemma progress_parseRelativeSlash: "parseRelativeSlash st c s = Inr r \<Longrightarrow> progress RelativeSlash st r"
  by (auto simp: progress_def parseRelativeSlash_def Let_def split: option.splits if_splits)

lemma progress_parseSpecialAuthoritySlashes: "progress SpecialAuthoritySlashes st (parseSpecialAuthoritySlashes st c s)"
  by (simp add: progress_def parseSpecialAuthoritySlashes_def)

lemma progress_parseSpecialAuthorityIgnoreSlashes: "progress SpecialAuthorityIgnoreSlashes st (parseSpecialAuthorityIgnoreSlashes st c s)"
  by (simp add: progress_def parseSpecialAuthorityIgnoreSlashes_def)

lemma progress_parseAuthority: "progress Authority st (parseAuthority st c s)"
  by (simp add: progress_def parseAuthority_def Let_def input_fold_authorityStep pointer_fold_authorityStep)

lemma progress_parseHostname: "parseHostname P st c s = Inr r \<Longrightarrow> progress Host st r \<and> progress Hostname st r"
  by (auto simp: progress_def parseHostname_def Let_def split: option.splits if_splits sum.splits)

lemma progress_parsePort: "progress Port st (parsePort st c s)"
  by (simp add: progress_def parsePort_def Let_def)

lemma progress_parseFile: "progress File st (parseFile st c s)"
  by (simp add: progress_def parseFile_def Let_def shortenPath_def split: option.splits)

lemma progress_parseFileSlash: "parseFileSlash st c s = Inr r \<Longrightarrow> progress FileSlash st r"
  by (auto simp: progress_def parseFileSlash_def Let_def split: option.splits if_splits list.splits)

lemma progress_parseFileHost: "parseFileHost P st c s = Inr r \<Longrightarrow> progress FileHost st r"
  by (auto simp: progress_def parseFileHost_def Let_def split: option.splits if_splits sum.splits)

lemma progress_parsePathStart: "progress PathStart st (parsePathStart st c s)"
  by (simp add: progress_def parsePathStart_def)

lemma progress_parsePath: "progress Path st (parsePath st c s)"
  by (simp add: progress_def parsePath_def Let_def)

lemma progress_parseOpaquePath: "progress OpaquePath st (parseOpaquePath st c s)"
  by (simp add: progress_def parseOpaquePath_def Let_def)

lemma progress_parseQuery: "progress Query st (parseQuery st c s)"
  by (simp add: progress_def parseQuery_def Let_def)

lemma progress_parseFragment: "progress Fragment st (parseFragment st c s)"
  by (simp add: progress_def parseFragment_def Let_def)

lemma next_progress: "next P mode st c s = Inr r \<Longrightarrow> progress mode st r"
  by (cases mode)
     (auto simp: next_def progress_parseSchemeStart progress_parseScheme progress_parseNoScheme progress_parseSpecialRelativeOrAuthority progress_parsePathOrAuthority progress_parseSpecialAuthoritySlashes progress_parseSpecialAuthorityIgnoreSlashes progress_parseAuthority progress_parsePort progress_parseFile progress_parsePathStart progress_parsePath progress_parseOpaquePath progress_parseQuery progress_parseFragment
        dest: progress_parseRelative progress_parseRelativeSlash progress_parseHostname progress_parseFileSlash progress_parseFileHost, auto simp: progress_def)

text \<open>The \<open>for\<close> loop of \<open>parseURLRaw\<close>: it runs while \<open>pointer <= input.length\<close>, and
  \<open>++state.pointer\<close> follows every round that ends in neither \<open>Success\<close> nor
  \<open>Failure\<close>. \<open>cStr\<close> is \<open>c != null ? String.fromCodePoint(c) : ''\<close>.\<close>

definition codePointString :: "nat option \<Rightarrow> jsstring" where
  "codePointString c = (case c of None \<Rightarrow> [] | Some cp \<Rightarrow> fromCodePoint cp)"

function parseLoop :: "platform \<Rightarrow> URLParseMode \<Rightarrow> URLParseState \<Rightarrow> jserror + URLParseState" where
  "parseLoop P mode st =
     (if pointer st \<le> int (length (input st)) then
        (let c = at (input st) (pointer st);
             cStr = codePointString c
         in case next P mode st c cStr of
              Inl e \<Rightarrow> Inl e
            | Inr (mode', st') \<Rightarrow>
                if mode' = Success then Inr (st'\<lparr>failure := False\<rparr>)
                else if mode' = Failure then Inr (st'\<lparr>failure := True\<rparr>)
                else parseLoop P mode' (st'\<lparr>pointer := pointer st' + 1\<rparr>))
      else Inr st)"
  by pat_completeness auto
termination
proof (relation "measures [\<lambda>(P, mode, st). 23 - modeRank mode,
    \<lambda>(P, mode, st). nat (int (length (input st)) + 1 - pointer st)]", goal_cases)
  case 1
  show ?case by simp
next
  case (2 P mode st c cStr r mode' st')
  then have "next P mode st c cStr = Inr (mode', st')" by simp
  from next_progress[OF this] 2 have
    "input st' = input st"
    "modeRank mode < modeRank mode' \<or> (mode' = mode \<and> pointer st' = pointer st)"
    by (auto simp: progress_def)
  moreover have "modeRank mode' \<le> 22" by (cases mode') simp_all
  ultimately show ?case using 2(1) by auto
qed

declare parseLoop.simps [simp del]

definition parseURLRaw ::
  "platform \<Rightarrow> jsstring \<Rightarrow> URLAbstract option \<Rightarrow> URLAbstract option \<Rightarrow> URLParseMode
     \<Rightarrow> jserror + URLParseState" where
  "parseURLRaw P inp u b initial =
     (let inp1 = (if u = None then trimControlChars inp else inp);
          inp2 = trimTabAndNewline inp1;
          st = \<lparr>pointer = 0, input = codePoints inp2, buffer = [], base = b,
                url = (case u of
                         None \<Rightarrow> \<lparr>scheme = [], username = [], password = [], host = None,
                                   port = None, path = [], query = None, fragment = None,
                                   opaquePath = False\<rparr>
                       | Some x \<Rightarrow> x),
                failure = False, atSignSeen = False, passwordTokenSeen = False,
                insideBrackets = False, initialMode = initial\<rparr>
      in parseLoop P (if initial = Success then SchemeStart else initial) st)"

text \<open>\<open>parseURL\<close>: the record, or \<open>null\<close> on failure. With an existing record the parse
  has written into that record whatever it returns; \<open>parseURLRaw\<close> shows the record after
  the call.\<close>

definition parseURL ::
  "platform \<Rightarrow> jsstring \<Rightarrow> URLAbstract option \<Rightarrow> URLAbstract option \<Rightarrow> URLParseMode
     \<Rightarrow> jserror + URLAbstract option" where
  "parseURL P inp u b initial =
     (case parseURLRaw P inp u b initial of
        Inl e \<Rightarrow> Inl e
      | Inr usm \<Rightarrow> Inr (if \<not> failure usm then Some (url usm) else None))"

subsection \<open>Serializers\<close>

text \<open>\<open>serializePath\<close>: \<open>url.path[0]\<close> of an opaque path is \<open>undefined\<close> when the array is
  empty.\<close>

definition serializePath :: "URLAbstract \<Rightarrow> jsstring option" where
  "serializePath u =
     (if opaquePath u then (case path u of [] \<Rightarrow> None | seg # _ \<Rightarrow> Some seg)
      else Some (concat (map (\<lambda>seg. 0x2F # seg) (path u))))"

definition serializeURL :: "URLAbstract \<Rightarrow> bool \<Rightarrow> jsstring" where
  "serializeURL u excludeFragment =
     scheme u @ [0x3A] @
     (case host u of
        None \<Rightarrow> []
      | Some h \<Rightarrow>
          [0x2F, 0x2F] @
          (if username u \<noteq> [] \<or> password u \<noteq> [] then
             username u @ (if password u \<noteq> [] then [0x3A] @ password u else []) @ [0x40]
           else []) @
          h @
          (case port u of None \<Rightarrow> [] | Some p \<Rightarrow> [0x3A] @ toStringRadix 10 p)) @
     (if host u = None \<and> \<not> opaquePath u \<and> length (path u) > 1 \<and> path u ! 0 = []
      then [0x2F, 0x2E] else []) @
     (case serializePath u of None \<Rightarrow> str ''undefined'' | Some s \<Rightarrow> s) @
     (case query u of None \<Rightarrow> [] | Some q \<Rightarrow> [0x3F] @ q) @
     (if \<not> excludeFragment then (case fragment u of None \<Rightarrow> [] | Some f \<Rightarrow> [0x23] @ f)
      else [])"

section \<open>The URL class (URLImpl.ts)\<close>

text \<open>\<open>interface URLInternals\<close>: the record and the attached search parameters, of which
  the list is kept here. A setter that reparses hands the record itself to \<open>parseURL\<close>,
  which writes into it: the record after the call is the one in the final parser state,
  whether the parse failed or not.\<close>

record URLInternals =
  u_url :: URLAbstract
  u_query :: "(jsstring \<times> jsstring) list"

definition setURLUsername :: "URLAbstract \<Rightarrow> jsstring \<Rightarrow> URLAbstract" where
  "setURLUsername u v = u\<lparr>username := utf8PercentEncodeString v isUserinfoPercentEncode False\<rparr>"

definition setURLPassword :: "URLAbstract \<Rightarrow> jsstring \<Rightarrow> URLAbstract" where
  "setURLPassword u v = u\<lparr>password := utf8PercentEncodeString v isUserinfoPercentEncode False\<rparr>"

text \<open>\<open>createSearchParams\<close> and \<open>updateSearchParams\<close>: the list for a query, which is
  empty for \<open>null\<close> and for the empty string.\<close>

definition updateSearchParams :: "jsstring option \<Rightarrow> (jsstring \<times> jsstring) list" where
  "updateSearchParams q =
     (case q of None \<Rightarrow> [] | Some s \<Rightarrow> if s = [] then [] else parseUrlencoded (utf8Encode s))"

text \<open>\<open>new URL(input, base)\<close> with both arguments strings; a failed parse throws a
  TypeError.\<close>

definition URL_new :: "platform \<Rightarrow> jsstring \<Rightarrow> jsstring option \<Rightarrow> jserror + URLInternals" where
  "URL_new P inp baseInput =
     (case (case baseInput of
              None \<Rightarrow> Inr None
            | Some b \<Rightarrow>
                (case parseURL P b None None Success of
                   Inl e \<Rightarrow> Inl e
                 | Inr None \<Rightarrow> Inl TypeError
                 | Inr (Some parsedBase) \<Rightarrow> Inr (Some parsedBase))) of
        Inl e \<Rightarrow> Inl e
      | Inr parsedBase \<Rightarrow>
          (case parseURL P inp None parsedBase Success of
             Inl e \<Rightarrow> Inl e
           | Inr None \<Rightarrow> Inl TypeError
           | Inr (Some u) \<Rightarrow> Inr \<lparr>u_url = u, u_query = updateSearchParams (query u)\<rparr>))"

definition set_href :: "platform \<Rightarrow> jsstring \<Rightarrow> URLInternals \<Rightarrow> jserror + URLInternals" where
  "set_href P v obj =
     (case parseURL P v None None Success of
        Inl e \<Rightarrow> Inl e
      | Inr None \<Rightarrow> Inl TypeError
      | Inr (Some u) \<Rightarrow> Inr \<lparr>u_url = u, u_query = updateSearchParams (query u)\<rparr>)"

text \<open>A reparse of the object's record from a start mode, as the setters call it:
  \<open>parseURL(input, this[_implSymbol].url, null, mode)\<close> with the result dropped.\<close>

definition reparse ::
  "platform \<Rightarrow> jsstring \<Rightarrow> URLParseMode \<Rightarrow> URLInternals \<Rightarrow> jserror + URLInternals" where
  "reparse P inp mode obj =
     (case parseURLRaw P inp (Some (u_url obj)) None mode of
        Inl e \<Rightarrow> Inl e
      | Inr usm \<Rightarrow> Inr (obj\<lparr>u_url := url usm\<rparr>))"

definition set_protocol :: "platform \<Rightarrow> jsstring \<Rightarrow> URLInternals \<Rightarrow> jserror + URLInternals" where
  "set_protocol P v obj = reparse P (v @ [0x3A]) SchemeStart obj"

definition set_username :: "jsstring \<Rightarrow> URLInternals \<Rightarrow> URLInternals" where
  "set_username v obj =
     (if \<not> cannotHaveAUsernamePasswordPort (u_url obj)
      then obj\<lparr>u_url := setURLUsername (u_url obj) v\<rparr> else obj)"

definition set_password :: "jsstring \<Rightarrow> URLInternals \<Rightarrow> URLInternals" where
  "set_password v obj =
     (if \<not> cannotHaveAUsernamePasswordPort (u_url obj)
      then obj\<lparr>u_url := setURLPassword (u_url obj) v\<rparr> else obj)"

definition set_host :: "platform \<Rightarrow> jsstring \<Rightarrow> URLInternals \<Rightarrow> jserror + URLInternals" where
  "set_host P v obj = (if \<not> opaquePath (u_url obj) then reparse P v Host obj else Inr obj)"

definition set_hostname :: "platform \<Rightarrow> jsstring \<Rightarrow> URLInternals \<Rightarrow> jserror + URLInternals" where
  "set_hostname P v obj =
     (if \<not> opaquePath (u_url obj) then reparse P v Hostname obj else Inr obj)"

definition set_port :: "platform \<Rightarrow> jsstring \<Rightarrow> URLInternals \<Rightarrow> jserror + URLInternals" where
  "set_port P v obj =
     (if \<not> cannotHaveAUsernamePasswordPort (u_url obj) then
        (if v = [] then Inr (obj\<lparr>u_url := (u_url obj)\<lparr>port := None\<rparr>\<rparr>)
         else reparse P v Port obj)
      else Inr obj)"

definition set_pathname :: "platform \<Rightarrow> jsstring \<Rightarrow> URLInternals \<Rightarrow> jserror + URLInternals" where
  "set_pathname P v obj =
     (if \<not> opaquePath (u_url obj)
      then reparse P v PathStart (obj\<lparr>u_url := (u_url obj)\<lparr>path := []\<rparr>\<rparr>)
      else Inr obj)"

definition set_search :: "platform \<Rightarrow> jsstring \<Rightarrow> URLInternals \<Rightarrow> jserror + URLInternals" where
  "set_search P v obj =
     (if v = [] then Inr (obj\<lparr>u_url := (u_url obj)\<lparr>query := None\<rparr>, u_query := []\<rparr>)
      else
        (let inp = (if atn v 0 = Some 0x3F then drop 1 v else v)
         in case reparse P inp Query (obj\<lparr>u_url := (u_url obj)\<lparr>query := Some []\<rparr>\<rparr>) of
              Inl e \<Rightarrow> Inl e
            | Inr obj' \<Rightarrow> Inr (obj'\<lparr>u_query := updateSearchParams (query (u_url obj'))\<rparr>)))"

definition set_hash :: "platform \<Rightarrow> jsstring \<Rightarrow> URLInternals \<Rightarrow> jserror + URLInternals" where
  "set_hash P v obj =
     (if v = [] then Inr (obj\<lparr>u_url := (u_url obj)\<lparr>fragment := None\<rparr>\<rparr>)
      else
        (let inp = (if atn v 0 = Some 0x23 then drop 1 v else v)
         in reparse P inp Fragment (obj\<lparr>u_url := (u_url obj)\<lparr>fragment := Some []\<rparr>\<rparr>)))"

text \<open>A mutation of the attached search parameters writes the query of the record
  (\<open>updateInternalURL\<close>).\<close>

definition searchParamsWrite :: "(jsstring \<times> jsstring) list \<Rightarrow> URLInternals \<Rightarrow> URLInternals" where
  "searchParamsWrite xs obj =
     (case sp_url (updateInternalURL \<lparr>sp_list = xs, sp_url = Some (u_url obj)\<rparr>) of
        None \<Rightarrow> obj
      | Some u \<Rightarrow> \<lparr>u_url = u, u_query = xs\<rparr>)"

text \<open>The records a program can hold: those of constructed \<open>URL\<close> objects, after any calls
  of their setters and any mutation of their search parameters.\<close>

inductive reachable :: "platform \<Rightarrow> URLInternals \<Rightarrow> bool" for P :: platform where
  construct: "URL_new P inp baseInput = Inr obj \<Longrightarrow> reachable P obj"
| href: "reachable P obj \<Longrightarrow> set_href P v obj = Inr obj' \<Longrightarrow> reachable P obj'"
| protocol: "reachable P obj \<Longrightarrow> set_protocol P v obj = Inr obj' \<Longrightarrow> reachable P obj'"
| username: "reachable P obj \<Longrightarrow> reachable P (set_username v obj)"
| password: "reachable P obj \<Longrightarrow> reachable P (set_password v obj)"
| host: "reachable P obj \<Longrightarrow> set_host P v obj = Inr obj' \<Longrightarrow> reachable P obj'"
| hostname: "reachable P obj \<Longrightarrow> set_hostname P v obj = Inr obj' \<Longrightarrow> reachable P obj'"
| port: "reachable P obj \<Longrightarrow> set_port P v obj = Inr obj' \<Longrightarrow> reachable P obj'"
| pathname: "reachable P obj \<Longrightarrow> set_pathname P v obj = Inr obj' \<Longrightarrow> reachable P obj'"
| search: "reachable P obj \<Longrightarrow> set_search P v obj = Inr obj' \<Longrightarrow> reachable P obj'"
| hash: "reachable P obj \<Longrightarrow> set_hash P v obj = Inr obj' \<Longrightarrow> reachable P obj'"
| searchParams: "reachable P obj \<Longrightarrow> reachable P (searchParamsWrite xs obj)"


section \<open>Reasoning about the driver loop\<close>









section \<open>Reparsing an existing record: what a failed parse leaves behind\<close>













section \<open>Evaluating the parser on concrete inputs\<close>

text \<open>The equations that unfold the state machine on a concrete input. The host parser is
  evaluated apart, function by function, and its results are handed to the machine as
  facts.\<close>

lemmas machine_eval =
  parseURL_def parseURLRaw_def parseLoop.simps codePointString_def next_def
  parseSchemeStart_def parseScheme_def parseNoScheme_def parseSpecialRelativeOrAuthority_def
  parsePathOrAuthority_def parseRelative_def parseRelativeSlash_def parseSpecialAuthoritySlashes_def
  parseSpecialAuthorityIgnoreSlashes_def parseAuthority_def authorityStep_def isAuthorityEnd_def
  parseHostname_def parsePort_def parseInt10_def startsWithWindowsDriveLetter_def parseFile_def
  parseFileSlash_def parseFileHost_def parsePathStart_def parsePath_def appendToFirstSegment_def
  appendToNullable_def parseOpaquePath_def parseQuery_def parseFragment_def
  isAsciiAlphaCp_def isAsciiDigitCp_def asciiLower_def at_def atn_def
  trimControlChars_def trimTabAndNewline_def isSpecial_def defaultPort_def includesCredentials_def
  isSingleDot_def isDoubleDot_def isWindowsDriveLetterString_def isWindowsDriveLetterCodePoints_def
  codePointAt_def shortenPath_def isNormalizedWindowsDriveLetter_def isNormalizedWindowsDriveLetterString_def
  percentEncode_eval
lemmas host_eval =
  parseHost_def parseOpaqueHost_def containsForbiddenHostCodePoint_def normalizeDomain_def
  asciiPlatform_def serializeHost_def isIPv4_def lastIndexOf_def slice_def parseIPv4_def
  parseIPv4Number_def parseIPv4Parts.simps serializeIPv4_def decodeHexDigit_def decodeHexDigitAt_def
  percentDecodeString_def utf8Decode_def utf8DecodeLoop.simps


section \<open>Claims settled on the parser\<close>














lemma domain_0x: "utf8Decode (percentDecodeString [48, 120]) = [48, 120]"
  by (simp add: percentDecodeString_def utf8Decode_def utf8DecodeLoop.simps percentEncode_eval)

lemma isIPv4_0x: "isIPv4 [48, 120] = True"
  apply (simp only: isIPv4_def Let_def)
  apply (simp add: lastIndexOf_def)
  apply (simp add: at_def slice_def parseIPv4Number_def)
  done

lemma parseIPv4_0x: "parseIPv4 [48, 120] = Inr (Some 0)"
  by (simp add: parseIPv4_def Let_def parseIPv4Parts.simps parseIPv4Number_def)

lemma parseHost_0x: "parseHost P [48, 120] False = Inr (Some (HostIPv4 0))"
  apply (simp only: parseHost_def domain_0x Let_def isIPv4_0x parseIPv4_0x)
  apply (simp add: atn_def)
  done

lemma serializeHost_IPv4_0: "serializeHost (HostIPv4 0) = [48, 46, 48, 46, 48, 46, 48]"
  by (simp add: serializeHost_def serializeIPv4_def Let_def toStringRadix.simps digitChar_def)

text \<open>Claim C10. \<open>parseIPv4Number\<close> returns 0 for \<open>0x\<close> and for \<open>0X\<close>, a hexadecimal prefix
  with no digit after it, and \<open>-1\<close> for the empty string. So the host \<open>0x\<close> passes the
  IPv4 test \<open>isIPv4\<close>, \<open>parseIPv4\<close> returns 0 for it, and \<open>http://0x\<close> parses to a record
  whose host is \<open>0.0.0.0\<close>.\<close>

theorem hex_prefix_alone_is_zero:
  "parseIPv4Number (str ''0x'') = 0
   \<and> parseIPv4Number (str ''0X'') = 0
   \<and> parseIPv4Number (str '''') = -1
   \<and> isIPv4 (str ''0x'')
   \<and> parseIPv4 (str ''0x'') = Inr (Some 0)
   \<and> parseURL P (str ''http://0x'') None None Success =
       Inr (Some \<lparr>scheme = str ''http'', username = [], password = [],
                  host = Some (str ''0.0.0.0''), port = None, path = [[]], query = None,
                  fragment = None, opaquePath = False\<rparr>)"
proof -
  have "parseIPv4Number (str ''0x'') = 0" "parseIPv4Number (str ''0X'') = 0"
    "parseIPv4Number (str '''') = -1"
    by (simp_all add: parseIPv4Number_def str_def)
  moreover have "isIPv4 (str ''0x'')" "parseIPv4 (str ''0x'') = Inr (Some 0)"
    by (simp_all add: str_def isIPv4_0x parseIPv4_0x)
  moreover have "parseURL P (str ''http://0x'') None None Success =
       Inr (Some \<lparr>scheme = str ''http'', username = [], password = [],
                  host = Some (str ''0.0.0.0''), port = None, path = [[]], query = None,
                  fragment = None, opaquePath = False\<rparr>)"
    by (simp add: machine_eval parseHost_0x serializeHost_IPv4_0)
  ultimately show ?thesis by simp
qed

lemma domain_h: "utf8Decode (percentDecodeString [104]) = [104]"
  by (simp add: percentDecodeString_def utf8Decode_def utf8DecodeLoop.simps percentEncode_eval)

lemma isIPv4_h: "isIPv4 [104] = False"
  apply (simp only: isIPv4_def Let_def)
  apply (simp add: lastIndexOf_def)
  apply (simp add: at_def slice_def parseIPv4Number_def decodeHexDigit_def)
  done

lemma parseHost_h: "parseHost asciiPlatform [104] False = Inr (Some (HostString [104]))"
  apply (simp only: parseHost_def domain_h Let_def isIPv4_h)
  apply (simp add: atn_def containsForbiddenHostCodePoint_def normalizeDomain_def
      asciiPlatform_def asciiLower_def)
  done

text \<open>Claim C3 fails on the code. The input is \<open>http://\<close>, U+1F600, \<open>a@h/\<close>; U+1F600 is
  the surrogate pair D83D DE00. The buffer at \<open>@\<close> has two code points and three code
  units. The loop runs twice and reads \<open>codePointAt(0)\<close>, the whole U+1F600, and then
  \<open>codePointAt(1)\<close>, the lone trail surrogate DE00, which UTF-8 encodes as U+FFFD; it never
  reads the \<open>a\<close>. The username is \<open>%F0%9F%98%80%EF%BF%BD\<close>, where the claim has
  \<open>%F0%9F%98%80a\<close>.\<close>

theorem authority_reads_code_units:
  "parseURL asciiPlatform
     ([104, 116, 116, 112, 58, 47, 47, 0xD83D, 0xDE00, 97, 64, 104, 47]) None None Success =
     Inr (Some \<lparr>scheme = str ''http'', username = str ''%F0%9F%98%80%EF%BF%BD'',
                password = [], host = Some (str ''h''), port = None, path = [[]],
                query = None, fragment = None, opaquePath = False\<rparr>)
   \<and> str ''%F0%9F%98%80%EF%BF%BD'' \<noteq> str ''%F0%9F%98%80a''"
  by (simp add: machine_eval parseHost_h serializeHost_def)


end

